theory Spec2Isabelle
  imports Main
begin

section \<open>Strings and paths\<close>

text \<open>
  The program names every artifact of a video by the decimal rendering of its index
  (\<^verbatim>\<open>f"{index}"\<close>), joined to a directory with \<^verbatim>\<open>os.path.join\<close>, and the transcriber looks
  at \<^verbatim>\<open>Path(p).suffix.lower()\<close>. Strings are lists of characters; Python's \<^verbatim>\<open>int\<close> is
  \<^typ>\<open>int\<close>.
\<close>

definition digit_char :: "nat \<Rightarrow> char" where
  "digit_char d = ''0123456789'' ! d"

function str_nat :: "nat \<Rightarrow> string" where
  "str_nat n = (if n < 10 then [digit_char n] else str_nat (n div 10) @ [digit_char (n mod 10)])"
  by pat_completeness auto
termination
  by (relation "measure id") auto

declare str_nat.simps [simp del]

text \<open>\<^verbatim>\<open>str(i)\<close> for a Python integer: a minus sign for negative values, then the digits.\<close>

definition str_int :: "int \<Rightarrow> string" where
  "str_int i = (if i < 0 then CHR ''-'' # str_nat (nat (- i)) else str_nat (nat i))"

text \<open>\<^verbatim>\<open>os.path.join(a, b)\<close> with two arguments, on a POSIX system.\<close>

definition os_path_join :: "string \<Rightarrow> string \<Rightarrow> string" where
  "os_path_join a b =
     (if b \<noteq> [] \<and> hd b = CHR ''/'' then b
      else if a = [] \<or> last a = CHR ''/'' then a @ b
      else a @ ''/'' @ b)"

text \<open>\<^verbatim>\<open>s.split(c)\<close>: the pieces of \<open>s\<close> between the occurrences of \<open>c\<close>.\<close>

fun split_on :: "char \<Rightarrow> string \<Rightarrow> string list" where
  "split_on c [] = [[]]"
| "split_on c (x # xs) =
     (if x = c then [] # split_on c xs
      else (case split_on c xs of [] \<Rightarrow> [[x]] | y # ys \<Rightarrow> (x # y) # ys))"

text \<open>
  \<^verbatim>\<open>Path(p).name\<close>: pathlib drops empty components and \<^verbatim>\<open>.\<close> components when it parses a
  path; the name is the last component left, or the empty string.
\<close>

definition path_parts :: "string \<Rightarrow> string list" where
  "path_parts p = filter (\<lambda>s. s \<noteq> [] \<and> s \<noteq> ''.'') (split_on CHR ''/'' p)"

definition path_name :: "string \<Rightarrow> string" where
  "path_name p = (case path_parts p of [] \<Rightarrow> [] | q # qs \<Rightarrow> last (q # qs))"

text \<open>\<^verbatim>\<open>s.rfind(c)\<close>: the index of the last occurrence, \<open>None\<close> for Python's \<open>-1\<close>.\<close>

definition rfind :: "char \<Rightarrow> string \<Rightarrow> nat option" where
  "rfind c s =
     (if c \<in> set s then Some (length s - 1 - length (takeWhile (\<lambda>x. x \<noteq> c) (rev s)))
      else None)"

text \<open>
  \<^verbatim>\<open>Path(p).suffix\<close>, as pathlib computes it:
  \<^verbatim>\<open>i = name.rfind('.'); return name[i:] if 0 < i < len(name) - 1 else ''\<close>.
\<close>

definition path_suffix :: "string \<Rightarrow> string" where
  "path_suffix p =
     (let name = path_name p in
      case rfind CHR ''.'' name of
        None \<Rightarrow> []
      | Some i \<Rightarrow> if 0 < i \<and> i + 1 < length name then drop i name else [])"

text \<open>\<^verbatim>\<open>str.lower()\<close> on the ASCII letters; every other character is left as it is.\<close>

definition lower_char :: "char \<Rightarrow> char" where
  "lower_char c =
     (case map_of (zip ''ABCDEFGHIJKLMNOPQRSTUVWXYZ'' ''abcdefghijklmnopqrstuvwxyz'') c of
        None \<Rightarrow> c
      | Some d \<Rightarrow> d)"

definition lower :: "string \<Rightarrow> string" where
  "lower s = map lower_char s"

text \<open>Truth value of an optional string: \<^verbatim>\<open>not x\<close> holds for \<^verbatim>\<open>None\<close> and for \<^verbatim>\<open>""\<close>.\<close>

definition falsy :: "string option \<Rightarrow> bool" where
  "falsy x = (case x of None \<Rightarrow> True | Some s \<Rightarrow> s = [])"

text \<open>An optional string inside an f-string: \<^verbatim>\<open>None\<close> prints as \<^verbatim>\<open>None\<close>.\<close>

definition fmt_opt :: "string option \<Rightarrow> string" where
  "fmt_opt x = (case x of None \<Rightarrow> ''None'' | Some s \<Rightarrow> s)"

text \<open>\<^verbatim>\<open>enumerate(xs, start=n)\<close>.\<close>

primrec py_enumerate :: "int \<Rightarrow> 'a list \<Rightarrow> (int \<times> 'a) list" where
  "py_enumerate n [] = []"
| "py_enumerate n (x # xs) = (n, x) # py_enumerate (n + 1) xs"

section \<open>Exceptions, events and the world\<close>

text \<open>
  Every exception carries its message. \<open>HttpError\<close> is the video service's error class,
  \<open>ValueError\<close> and \<open>PyException\<close> (Python's plain \<^verbatim>\<open>Exception\<close>) are the two the program
  raises itself, \<open>FileNotFoundError\<close> is what \<^verbatim>\<open>open\<close> raises for a missing file, and
  \<open>OtherError\<close> stands for the classes of the libraries (of the HTTP client, the extractor,
  the completion client, the file system), which the program never tells apart.
\<close>

datatype exn =
    HttpError string
  | ValueError string
  | PyException string
  | FileNotFoundError string
  | OtherError string

fun exn_str :: "exn \<Rightarrow> string" where
  "exn_str (HttpError m) = m"
| "exn_str (ValueError m) = m"
| "exn_str (PyException m) = m"
| "exn_str (FileNotFoundError m) = m"
| "exn_str (OtherError m) = m"

text \<open>
  What the program does to the outside, in the order it does it: lines printed, calls to
  the remote services and to the audio extractor, directories created and files written.
\<close>

datatype event =
    Print string
  | MakeDirs string
  | Build "string option"
  | SearchList "string option" nat
  | VideosList string
  | CaptionsList string
  | YdlDownload string string
  | RequestsPost string string string
  | GroqChat "string option" string
  | OpenWrite string string

record world =
  files :: "string \<rightharpoonup> string"
  trace :: "event list"

definition emit :: "event \<Rightarrow> world \<Rightarrow> world" where
  "emit e w = w\<lparr>trace := trace w @ [e]\<rparr>"

definition print :: "string \<Rightarrow> world \<Rightarrow> world" where
  "print s w = emit (Print s) w"

definition os_path_exists :: "string \<Rightarrow> world \<Rightarrow> bool" where
  "os_path_exists p w = (files w p \<noteq> None)"

text \<open>The events a computation added: those of \<open>w'\<close> after the ones \<open>w\<close> had.\<close>

definition events_since :: "world \<Rightarrow> world \<Rightarrow> event list" where
  "events_since w w' = drop (length (trace w)) (trace w')"

section \<open>The collaborators\<close>

text \<open>
  The remote services and tools answer as functions of what they are asked. A response of
  the video service is a dictionary that may or may not have an \<^verbatim>\<open>items\<close> entry;
  \<^verbatim>\<open>response.get("items", [])\<close> reads it. The catalog answers a search with a finite
  sequence of pages, each of which is a response or an error; the first request is always
  made, so this sequence has at least one page. An item of a details response carries its
  snippet with the title, an item of a caption listing its snippet with the track kind.
\<close>

record track =
  trackKind :: string

record video_item =
  title :: string

type_synonym 'a response = "'a list option"

definition get_items :: "'a response \<Rightarrow> 'a list" where
  "get_items r = (case r of None \<Rightarrow> [] | Some xs \<Rightarrow> xs)"

record youtube =
  search_list :: "string option \<Rightarrow> (exn + string response) list"
  videos_list :: "string \<Rightarrow> exn + video_item response"
  captions_list :: "string \<Rightarrow> exn + track response"

record http_response =
  status_code :: int
  resp_text :: string
  json_text :: "string option"

datatype write_outcome =
    Written
  | OpenFailed string
  | WriteFailed string string

text \<open>
  The other collaborators. Where one of them fails it gives the message of its exception,
  which the program sees as an \<open>OtherError\<close>.
\<close>

record services =
  os_makedirs :: "string \<Rightarrow> string option"
  build :: "string option \<Rightarrow> string + youtube"
  ydl_download :: "string \<Rightarrow> string \<Rightarrow> string + string"
  requests_post :: "string \<Rightarrow> string \<Rightarrow> string \<Rightarrow> string + http_response"
  groq_chat :: "string option \<Rightarrow> string \<Rightarrow> string + string"
  open_write :: "string \<Rightarrow> string \<Rightarrow> write_outcome"

type_synonym environ = "string \<rightharpoonup> string"

type_synonym 'a result = "(exn + 'a) \<times> world"

section \<open>The video service\<close>

text \<open>
  \<^verbatim>\<open>get_video_ids\<close>: the loop over the pages of the catalog. Each turn executes one request
  and appends the identifiers of its items; an error of the service leaves the loop.
\<close>

fun fetch_pages ::
  "string option \<Rightarrow> nat \<Rightarrow> (exn + string response) list \<Rightarrow> string list \<Rightarrow> world
     \<Rightarrow> string list result" where
  "fetch_pages channel_id n [] video_ids w = (Inr video_ids, w)"
| "fetch_pages channel_id n (page # pages) video_ids w =
     (let w' = emit (SearchList channel_id n) w in
      case page of
        Inl e \<Rightarrow> (Inl e, w')
      | Inr response \<Rightarrow> fetch_pages channel_id (Suc n) pages (video_ids @ get_items response) w')"

definition get_video_ids :: "youtube \<Rightarrow> string option \<Rightarrow> world \<Rightarrow> string list result" where
  "get_video_ids yt channel_id w = fetch_pages channel_id 0 (search_list yt channel_id) [] w"

text \<open>\<^verbatim>\<open>get_video_details\<close>: \<^verbatim>\<open>items[0] if items else None\<close>.\<close>

definition get_video_details :: "youtube \<Rightarrow> string \<Rightarrow> world \<Rightarrow> video_item option result" where
  "get_video_details yt video_id w =
     (let w' = emit (VideosList video_id) w in
      case videos_list yt video_id of
        Inl e \<Rightarrow> (Inl e, w')
      | Inr response \<Rightarrow>
          (Inr (case get_items response of [] \<Rightarrow> None | item # _ \<Rightarrow> Some item), w'))"

text \<open>
  The loop of \<^verbatim>\<open>check_for_transcription\<close> over the caption tracks: a track of kind
  \<^verbatim>\<open>ASR\<close> is passed over, the first other track returns \<open>True\<close>.
\<close>

fun caption_loop :: "track list \<Rightarrow> bool" where
  "caption_loop [] = False"
| "caption_loop (item # items) =
     (if trackKind item = ''ASR'' then caption_loop items else True)"

definition check_for_transcription :: "youtube \<Rightarrow> string \<Rightarrow> world \<Rightarrow> bool result" where
  "check_for_transcription yt video_id w =
     (let w' = emit (CaptionsList video_id) w in
      case captions_list yt video_id of
        Inl e \<Rightarrow> (Inl e, w')
      | Inr response \<Rightarrow> (Inr (caption_loop (get_items response)), w'))"

section \<open>Audio acquisition\<close>

definition audio_file_basename :: "int \<Rightarrow> string" where
  "audio_file_basename index = os_path_join ''audio_files'' (str_int index)"

definition audio_file_path_of :: "int \<Rightarrow> string" where
  "audio_file_path_of index = audio_file_basename index @ ''.mp3''"

definition watch_url :: "string \<Rightarrow> string" where
  "watch_url video_id = ''https://www.youtube.com/watch?v='' @ video_id"

text \<open>
  \<^verbatim>\<open>download_audio\<close>. A file already at the path is returned as it is. Otherwise the
  extractor runs; when it succeeds its post-processor has left the audio at the base name
  with the extension \<^verbatim>\<open>.mp3\<close>; any exception is printed and becomes \<open>None\<close>.
\<close>

definition download_audio :: "services \<Rightarrow> string \<Rightarrow> int \<Rightarrow> world \<Rightarrow> string option \<times> world" where
  "download_audio sv video_id index w =
     (let audio_file_path = audio_file_path_of index in
      if os_path_exists audio_file_path w then
        (Some audio_file_path,
         print (''Audio file '' @ audio_file_path @ '' already exists. Skipping download.'') w)
      else
        (let url = watch_url video_id;
             w' = emit (YdlDownload url (audio_file_basename index)) w in
         case ydl_download sv url (audio_file_basename index) of
           Inr audio \<Rightarrow> (Some audio_file_path, w'\<lparr>files := (files w')(audio_file_path \<mapsto> audio)\<rparr>)
         | Inl m \<Rightarrow>
             (None,
              print (''Error downloading audio for video ID '' @ video_id @ '': ''
                       @ exn_str (OtherError m)) w')))"

section \<open>Transcription\<close>

definition audio_file_types_list :: "string list" where
  "audio_file_types_list = [''.mp3'', ''.wav'', ''.m4a'', ''.flac'']"

definition audio_file_types :: "string set" where
  "audio_file_types = set audio_file_types_list"

text \<open>
  The set as the message of the \<open>ValueError\<close> shows it. Python prints the elements of a
  set in an order of its own choosing; the order of the source text is taken here.
\<close>

definition quoted :: "string \<Rightarrow> string" where
  "quoted s = [CHR 0x27] @ s @ [CHR 0x27]"

definition audio_file_types_repr :: "string" where
  "audio_file_types_repr =
     ''{'' @ quoted ''.mp3'' @ '', '' @ quoted ''.wav'' @ '', '' @ quoted ''.m4a'' @ '', ''
     @ quoted ''.flac'' @ ''}''"

definition transcriptions_url :: "string" where
  "transcriptions_url = ''https://api.groq.com/openai/v1/audio/transcriptions''"

text \<open>
  \<^verbatim>\<open>transcribe_audio\<close>. The extension is checked first; then the file is opened, which
  fails when it is not there; then the one request is sent. \<^verbatim>\<open>GROQ_API_KEY\<close> is the
  module's global, read from the environment.
\<close>

definition transcribe_audio :: "services \<Rightarrow> environ \<Rightarrow> string \<Rightarrow> world \<Rightarrow> string result" where
  "transcribe_audio sv environ audio_file_path w =
     (if lower (path_suffix audio_file_path) \<notin> audio_file_types then
        (Inl (ValueError (''Unsupported audio format for '' @ audio_file_path
                @ ''. Supported formats: '' @ audio_file_types_repr)), w)
      else
        (let headers = ''Bearer '' @ fmt_opt (environ ''GROQ_API_KEY'') in
         case files w audio_file_path of
           None \<Rightarrow> (Inl (FileNotFoundError audio_file_path), w)
         | Some f \<Rightarrow>
             (let w' = emit (RequestsPost transcriptions_url headers f) w in
              case requests_post sv transcriptions_url headers f of
                Inl m \<Rightarrow> (Inl (OtherError m), w')
              | Inr response \<Rightarrow>
                  if status_code response = 200 then
                    (case json_text response of
                       None \<Rightarrow> (Inl (OtherError ''text''), w')
                     | Some t \<Rightarrow> (Inr t, w'))
                  else
                    (Inl (PyException (''Transcription failed: '' @ resp_text response)), w'))))"

section \<open>Formatting\<close>

definition query_groq :: "services \<Rightarrow> environ \<Rightarrow> string \<Rightarrow> world \<Rightarrow> string result" where
  "query_groq sv environ prompt w =
     (let key = environ ''GROQ_API_KEY'';
          w' = emit (GroqChat key prompt) w in
      case groq_chat sv key prompt of
        Inl m \<Rightarrow> (Inl (OtherError m), w')
      | Inr content \<Rightarrow> (Inr content, w'))"

definition format_prompt :: "string \<Rightarrow> string" where
  "format_prompt transcription =
     ''Edit the following transcription into topics using markdown. Try'' @ [CHR 0x0A]
     @ ''    to recognize when something is a song lyric instead of conversational'' @ [CHR 0x0A]
     @ ''    text.:'' @ [CHR 0x0A, CHR 0x0A] @ transcription"

definition format_transcription :: "services \<Rightarrow> environ \<Rightarrow> string \<Rightarrow> world \<Rightarrow> string result" where
  "format_transcription sv environ transcription w =
     query_groq sv environ (format_prompt transcription) w"

section \<open>The pipeline of one video\<close>

definition transcription_file_path :: "int \<Rightarrow> string" where
  "transcription_file_path index = os_path_join ''transcriptions'' (str_int index @ ''.md'')"

text \<open>
  The last step of \<^verbatim>\<open>process_video\<close>: the file is opened for writing and the text is
  written, inside a \<^verbatim>\<open>try\<close> whose handler prints the exception. A failed \<^verbatim>\<open>open\<close>
  leaves the disk as it was; a failed \<^verbatim>\<open>write\<close> leaves what had been written.
\<close>

definition write_transcription :: "services \<Rightarrow> string \<Rightarrow> string \<Rightarrow> world \<Rightarrow> world" where
  "write_transcription sv file_path formatted_transcription w =
     (let w' = emit (OpenWrite file_path formatted_transcription) w in
      case open_write sv file_path formatted_transcription of
        Written \<Rightarrow>
          print (''Saved edited transcription to '' @ file_path)
            (w'\<lparr>files := (files w')(file_path \<mapsto> formatted_transcription)\<rparr>)
      | OpenFailed m \<Rightarrow>
          print (''Failed to write transcription to '' @ file_path @ '': ''
                   @ exn_str (OtherError m)) w'
      | WriteFailed m partial \<Rightarrow>
          print (''Failed to write transcription to '' @ file_path @ '': ''
                   @ exn_str (OtherError m))
            (w'\<lparr>files := (files w')(file_path \<mapsto> partial)\<rparr>))"

text \<open>
  \<^verbatim>\<open>process_video\<close>, statement by statement. \<open>Inr ()\<close> is a normal return, \<open>Inl e\<close> an
  exception that leaves the function: the calls for the details, for the caption tracks and
  for the formatting stand outside every \<^verbatim>\<open>try\<close>.
\<close>

definition process_video ::
  "services \<Rightarrow> environ \<Rightarrow> youtube \<Rightarrow> string \<Rightarrow> int \<Rightarrow> world \<Rightarrow> unit result" where
  "process_video sv environ yt video_id index w =
     (case get_video_details yt video_id w of
        (Inl e, w1) \<Rightarrow> (Inl e, w1)
      | (Inr None, w1) \<Rightarrow> (Inr (), print (''Video details not found for ID: '' @ video_id) w1)
      | (Inr (Some video_details), w1) \<Rightarrow>
          (let file_path = transcription_file_path index;
               w2 = print (''Processing video: '' @ title video_details) w1 in
           if os_path_exists file_path w2 then
             (Inr (), print (''Transcription file '' @ file_path
                       @ '' already exists. Skipping transcription and formatting.'') w2)
           else
             (case check_for_transcription yt video_id w2 of
                (Inl e, w3) \<Rightarrow> (Inl e, w3)
              | (Inr True, w3) \<Rightarrow>
                  (Inr (), print (''Video ID '' @ video_id
                     @ '' already has a transcription. Skipping download and transcription.'') w3)
              | (Inr False, w3) \<Rightarrow>
                  (case download_audio sv video_id index w3 of
                     (None, w4) \<Rightarrow>
                       (Inr (), print (''Failed to download audio for video ID: '' @ video_id) w4)
                   | (Some audio_file_path, w4) \<Rightarrow>
                       if audio_file_path = [] then
                         (Inr (), print (''Failed to download audio for video ID: '' @ video_id) w4)
                       else
                         (case transcribe_audio sv environ audio_file_path w4 of
                            (Inl e, w5) \<Rightarrow>
                              (Inr (), print (''Transcription failed for '' @ audio_file_path
                                         @ '': '' @ exn_str e) w5)
                          | (Inr transcription, w5) \<Rightarrow>
                              (case format_transcription sv environ transcription w5 of
                                 (Inl e, w6) \<Rightarrow> (Inl e, w6)
                               | (Inr formatted_transcription, w6) \<Rightarrow>
                                   (Inr (), write_transcription sv file_path
                                              formatted_transcription w6)))))))"

section \<open>The batch\<close>

text \<open>
  The \<^verbatim>\<open>for\<close> loop of \<^verbatim>\<open>main\<close> over the enumerated identifiers. The body is the bare call
  of \<^verbatim>\<open>process_video\<close>: an exception that leaves it leaves the loop too.
\<close>

fun process_all ::
  "services \<Rightarrow> environ \<Rightarrow> youtube \<Rightarrow> (int \<times> string) list \<Rightarrow> world \<Rightarrow> unit result" where
  "process_all sv environ yt [] w = (Inr (), w)"
| "process_all sv environ yt ((index, video_id) # rest) w =
     (case process_video sv environ yt video_id index w of
        (Inl e, w') \<Rightarrow> (Inl e, w')
      | (Inr u, w') \<Rightarrow> process_all sv environ yt rest w')"

text \<open>
  How the process ends: \<^verbatim>\<open>sys.exit(n)\<close>, the end of the script (exit code 0), or an
  exception nobody caught (the interpreter prints it and exits with code 1).
\<close>

datatype status = Exit nat | Uncaught exn

fun exit_code :: "status \<Rightarrow> nat" where
  "exit_code (Exit n) = n"
| "exit_code (Uncaught e) = 1"

definition main :: "services \<Rightarrow> environ \<Rightarrow> world \<Rightarrow> status \<times> world" where
  "main sv environ w =
     (let w1 = emit (Build (environ ''YT_API_KEY'')) w in
      case build sv (environ ''YT_API_KEY'') of
        Inl m \<Rightarrow> (Uncaught (OtherError m), w1)
      | Inr yt \<Rightarrow>
          (case get_video_ids yt (environ ''CHANNEL_ID'') w1 of
             (Inl (HttpError m), w2) \<Rightarrow> (Exit 1, print (''An HTTP error occurred: '' @ m) w2)
           | (Inl e, w2) \<Rightarrow> (Uncaught e, w2)
           | (Inr video_ids, w2) \<Rightarrow>
               (let w3 = print (''Found '' @ str_int (int (length video_ids)) @ '' videos.'') w2 in
                case process_all sv environ yt (py_enumerate 1 video_ids) w3 of
                  (Inl e, w4) \<Rightarrow> (Uncaught e, w4)
                | (Inr u, w4) \<Rightarrow> (Exit 0, w4))))"

text \<open>\<^verbatim>\<open>os.makedirs(d, exist_ok=True)\<close> at module level.\<close>

definition makedirs :: "services \<Rightarrow> string \<Rightarrow> world \<Rightarrow> unit result" where
  "makedirs sv d w =
     (let w' = emit (MakeDirs d) w in
      case os_makedirs sv d of None \<Rightarrow> (Inr (), w') | Some m \<Rightarrow> (Inl (OtherError m), w'))"

text \<open>
  The script from its first line: the two checks of the keys, the read of the channel
  identifier, the two directories, then \<^verbatim>\<open>main()\<close>.
\<close>

definition program :: "services \<Rightarrow> environ \<Rightarrow> world \<Rightarrow> status \<times> world" where
  "program sv environ w =
     (if falsy (environ ''GROQ_API_KEY'') then
        (Exit 1, print ''Error: GROQ_API_KEY is not set.'' w)
      else if falsy (environ ''YT_API_KEY'') then
        (Exit 1, print ''Error: YOUTUBE_API_KEY is not set.'' w)
      else
        (case makedirs sv ''audio_files'' w of
           (Inl e, w1) \<Rightarrow> (Uncaught e, w1)
         | (Inr u, w1) \<Rightarrow>
             (case makedirs sv ''transcriptions'' w1 of
                (Inl e, w2) \<Rightarrow> (Uncaught e, w2)
              | (Inr u, w2) \<Rightarrow> main sv environ w2)))"

section \<open>Kinds of events\<close>

fun is_print :: "event \<Rightarrow> bool" where
  "is_print (Print s) = True"
| "is_print e = False"

fun is_details_call :: "event \<Rightarrow> bool" where
  "is_details_call (VideosList v) = True"
| "is_details_call e = False"

fun is_captions_call :: "event \<Rightarrow> bool" where
  "is_captions_call (CaptionsList v) = True"
| "is_captions_call e = False"

fun is_extractor_call :: "event \<Rightarrow> bool" where
  "is_extractor_call (YdlDownload u b) = True"
| "is_extractor_call e = False"

fun is_transcription_call :: "event \<Rightarrow> bool" where
  "is_transcription_call (RequestsPost u h f) = True"
| "is_transcription_call e = False"

fun is_formatting_call :: "event \<Rightarrow> bool" where
  "is_formatting_call (GroqChat k p) = True"
| "is_formatting_call e = False"

fun is_file_write :: "event \<Rightarrow> bool" where
  "is_file_write (OpenWrite p c) = True"
| "is_file_write e = False"

section \<open>A small channel to run the program on\<close>

text \<open>
  A video service, tools and a disk chosen so that every gate of the pipeline is met by
  some video: \<open>gone\<close> has no details, the details of \<open>bad\<close> and the captions of \<open>capbad\<close> end
  in an error of the service, \<open>manual\<close> has a hand-made caption track, \<open>nodl\<close> cannot be
  downloaded, the transcription of \<open>f500\<close> is refused, the formatting of \<open>nofmt\<close> fails and
  \<open>ok\<close> goes through. Two variants: a catalog that cannot be listed, and a disk that
  cannot be written.
\<close>

definition demo_youtube :: youtube where
  "demo_youtube =
     \<lparr>search_list = (\<lambda>c. [Inr (Some [''nofmt'', ''ok''])]),
      videos_list = (\<lambda>v. if v = ''bad'' then Inl (HttpError ''E1'')
                           else if v = ''gone'' then Inr (Some [])
                           else Inr (Some [\<lparr>title = ''T''\<rparr>])),
      captions_list = (\<lambda>v. if v = ''capbad'' then Inl (HttpError ''E2'')
                             else if v = ''manual''
                               then Inr (Some [\<lparr>trackKind = ''ASR''\<rparr>, \<lparr>trackKind = ''standard''\<rparr>])
                             else Inr (Some [\<lparr>trackKind = ''ASR''\<rparr>]))\<rparr>"

definition demo_services :: services where
  "demo_services =
     \<lparr>os_makedirs = (\<lambda>d. None),
      build = (\<lambda>k. Inr demo_youtube),
      ydl_download = (\<lambda>u b. if u = watch_url ''nodl'' then Inl ''E3''
                             else if u = watch_url ''f500'' then Inr ''A5''
                             else if u = watch_url ''nofmt'' then Inr ''A6''
                             else Inr ''A7''),
      requests_post = (\<lambda>u h f. if f = ''A5''
                                 then Inr \<lparr>status_code = 500, resp_text = ''E4'', json_text = None\<rparr>
                                 else Inr \<lparr>status_code = 200, resp_text = ''J'', json_text = Some f\<rparr>),
      groq_chat = (\<lambda>k p. if p = format_prompt ''A6'' then Inl ''E5'' else Inr ''M''),
      open_write = (\<lambda>p c. Written)\<rparr>"

definition down_youtube :: youtube where
  "down_youtube = demo_youtube\<lparr>search_list := (\<lambda>c. [Inl (HttpError ''E0'')])\<rparr>"

definition down_services :: services where
  "down_services = demo_services\<lparr>build := (\<lambda>k. Inr down_youtube)\<rparr>"

definition readonly_services :: services where
  "readonly_services = demo_services\<lparr>open_write := (\<lambda>p c. OpenFailed ''E6'')\<rparr>"

definition demo_environ :: environ where
  "demo_environ = [''GROQ_API_KEY'' \<mapsto> ''g'', ''YT_API_KEY'' \<mapsto> ''y'', ''CHANNEL_ID'' \<mapsto> ''c'']"

definition no_channel_environ :: environ where
  "no_channel_environ = [''GROQ_API_KEY'' \<mapsto> ''g'', ''YT_API_KEY'' \<mapsto> ''y'']"

definition empty_world :: world where
  "empty_world = \<lparr>files = Map.empty, trace = []\<rparr>"

definition done_world :: world where
  "done_world = \<lparr>files = [''transcriptions/1.md'' \<mapsto> ''M0'', ''audio_files/1.mp3'' \<mapsto> ''A0''],
                  trace = []\<rparr>"

section \<open>Facts about the decimal rendering and the paths\<close>

lemma digit_char_in: "d < 10 \<Longrightarrow> digit_char d \<in> set ''0123456789''"
  unfolding digit_char_def by (rule nth_mem) simp

lemma digit_char_inj:
  assumes "a < 10" "b < 10" "digit_char a = digit_char b"
  shows "a = b"
proof -
  have "distinct ''0123456789''" by simp
  moreover have "a < length ''0123456789''" "b < length ''0123456789''" using assms by simp_all
  ultimately show ?thesis using assms(3) unfolding digit_char_def
    by (simp only: nth_eq_iff_index_eq)
qed

lemma str_nat_nonempty: "str_nat n \<noteq> []"
  by (subst str_nat.simps) simp

lemma str_nat_digits: "set (str_nat n) \<subseteq> set ''0123456789''"
proof (induction n rule: str_nat.induct)
  case (1 n)
  show ?case
  proof (cases "n < 10")
    case True
    then show ?thesis using digit_char_in [of n] by (subst str_nat.simps) simp
  next
    case False
    have "digit_char (n mod 10) \<in> set ''0123456789''" by (rule digit_char_in) simp
    with False 1 show ?thesis by (subst str_nat.simps) simp
  qed
qed

lemma str_nat_last: "last (str_nat n) = digit_char (n mod 10)"
  by (subst str_nat.simps) simp

lemma str_nat_butlast: "butlast (str_nat n) = (if n < 10 then [] else str_nat (n div 10))"
  by (subst str_nat.simps) simp

lemma str_nat_inj: "str_nat m = str_nat n \<Longrightarrow> m = n"
proof (induction m arbitrary: n rule: str_nat.induct)
  case (1 m)
  note eq = \<open>str_nat m = str_nat n\<close>
  have "last (str_nat m) = last (str_nat n)" by (simp only: eq)
  then have l: "digit_char (m mod 10) = digit_char (n mod 10)"
    by (simp only: str_nat_last)
  have m10: "m mod 10 = n mod 10" by (rule digit_char_inj [OF _ _ l]) simp_all
  have "butlast (str_nat m) = butlast (str_nat n)" by (simp only: eq)
  then have b: "(if m < 10 then [] else str_nat (m div 10)) = (if n < 10 then [] else str_nat (n div 10))"
    by (simp only: str_nat_butlast)
  show ?case
  proof (cases "m < 10")
    case True
    have "n < 10"
    proof (rule ccontr)
      assume "\<not> n < 10"
      with True b have "[] = str_nat (n div 10)" by simp
      then show False using str_nat_nonempty [of "n div 10"] by simp
    qed
    with True m10 show ?thesis by simp
  next
    case False
    have n: "\<not> n < 10"
    proof
      assume "n < 10"
      with False b have "str_nat (m div 10) = []" by simp
      then show False using str_nat_nonempty [of "m div 10"] by simp
    qed
    with False b have "str_nat (m div 10) = str_nat (n div 10)" by simp
    with "1.IH" False have d: "m div 10 = n div 10" by blast
    have "m = 10 * (m div 10) + m mod 10" by simp
    also have "\<dots> = 10 * (n div 10) + n mod 10" by (simp only: d m10)
    also have "\<dots> = n" by simp
    finally show ?thesis .
  qed
qed

lemma str_int_nonempty: "str_int i \<noteq> []"
  by (simp add: str_int_def str_nat_nonempty)

lemma str_nat_hd_digit: "hd (str_nat n) \<in> set ''0123456789''"
proof -
  have "hd (str_nat n) \<in> set (str_nat n)" using str_nat_nonempty by (rule hd_in_set)
  then show ?thesis using str_nat_digits by (rule subsetD [rotated])
qed

lemma str_nat_hd_not_minus: "hd (str_nat n) \<noteq> CHR ''-''"
  using str_nat_hd_digit [of n] by auto

lemma str_int_chars: "set (str_int i) \<subseteq> set ''-0123456789''"
proof (cases "i < 0")
  case True
  then show ?thesis using str_nat_digits [of "nat (- i)"] by (simp add: str_int_def subset_insertI2)
next
  case False
  then show ?thesis using str_nat_digits [of "nat i"] by (simp add: str_int_def subset_insertI2)
qed

lemma str_int_inj: "str_int i = str_int j \<Longrightarrow> i = j"
proof -
  assume eq: "str_int i = str_int j"
  show ?thesis
  proof (cases "i < 0")
    case True
    have "j < 0"
    proof (rule ccontr)
      assume "\<not> j < 0"
      with True eq have "CHR ''-'' # str_nat (nat (- i)) = str_nat (nat j)" by (simp add: str_int_def)
      then have "hd (str_nat (nat j)) = CHR ''-''" by (metis list.sel(1))
      with str_nat_hd_not_minus show False by blast
    qed
    with True eq have "str_nat (nat (- i)) = str_nat (nat (- j))" by (simp add: str_int_def)
    then have "nat (- i) = nat (- j)" by (rule str_nat_inj)
    with True \<open>j < 0\<close> show ?thesis by simp
  next
    case False
    have nj: "\<not> j < 0"
    proof
      assume "j < 0"
      with False eq have "str_nat (nat i) = CHR ''-'' # str_nat (nat (- j))" by (simp add: str_int_def)
      then have "hd (str_nat (nat i)) = CHR ''-''" by (metis list.sel(1))
      with str_nat_hd_not_minus show False by blast
    qed
    with False eq have "str_nat (nat i) = str_nat (nat j)" by (simp add: str_int_def)
    then have "nat i = nat j" by (rule str_nat_inj)
    with False nj show ?thesis by simp
  qed
qed

lemma str_int_no_slash: "CHR ''/'' \<notin> set (str_int i)"
  using str_int_chars [of i] by auto

lemma str_int_hd_not_slash: "hd (str_int i) \<noteq> CHR ''/''"
proof -
  have "hd (str_int i) \<in> set (str_int i)" using str_int_nonempty by (rule hd_in_set)
  with str_int_no_slash show ?thesis by metis
qed

lemma audio_file_path_of_eq: "audio_file_path_of index = ''audio_files/'' @ str_int index @ ''.mp3''"
  using str_int_hd_not_slash [of index]
  by (simp add: audio_file_path_of_def audio_file_basename_def os_path_join_def)

lemma transcription_file_path_eq:
  "transcription_file_path index = ''transcriptions/'' @ str_int index @ ''.md''"
proof -
  have "hd (str_int index @ ''.md'') = hd (str_int index)"
    using str_int_nonempty by (rule hd_append2)
  then show ?thesis using str_int_hd_not_slash [of index]
    by (simp add: transcription_file_path_def os_path_join_def)
qed

lemma audio_file_path_of_inj: "audio_file_path_of i = audio_file_path_of j \<Longrightarrow> i = j"
  by (rule str_int_inj) (simp add: audio_file_path_of_eq)

lemma transcription_file_path_inj: "transcription_file_path i = transcription_file_path j \<Longrightarrow> i = j"
  by (rule str_int_inj) (simp add: transcription_file_path_eq)

lemma audio_neq_transcription: "audio_file_path_of i \<noteq> transcription_file_path j"
  by (simp add: audio_file_path_of_eq transcription_file_path_eq)

lemma split_on_none: "c \<notin> set s \<Longrightarrow> split_on c s = [s]"
  by (induction s) auto

lemma split_on_append: "c \<notin> set a \<Longrightarrow> split_on c (a @ c # b) = a # split_on c b"
  by (induction a) auto

lemma rfind_last: "c \<notin> set b \<Longrightarrow> rfind c (a @ c # b) = Some (length a)"
proof -
  assume nb: "c \<notin> set b"
  have "\<forall>x\<in>set (rev b). x \<noteq> c" using nb by auto
  then have "takeWhile (\<lambda>x. x \<noteq> c) (rev b @ c # rev a) = rev b"
    by (simp add: takeWhile_tail)
  then show ?thesis by (simp add: rfind_def)
qed

lemma path_suffix_named:
  assumes "CHR ''/'' \<notin> set stem" "stem \<noteq> []" "CHR ''/'' \<notin> set ext" "CHR ''.'' \<notin> set ext" "ext \<noteq> []"
    "d \<noteq> []" "CHR ''/'' \<notin> set d" "d \<noteq> ''.''"
  shows "path_suffix (d @ CHR ''/'' # stem @ CHR ''.'' # ext) = CHR ''.'' # ext"
proof -
  let ?name = "stem @ CHR ''.'' # ext"
  have "split_on CHR ''/'' (d @ CHR ''/'' # ?name) = [d, ?name]"
    using assms by (simp add: split_on_append split_on_none)
  moreover have "?name \<noteq> ''.''" using assms(2) by (cases stem) simp_all
  ultimately have "path_parts (d @ CHR ''/'' # ?name) = [d, ?name]"
    using assms by (simp add: path_parts_def)
  then have n: "path_name (d @ CHR ''/'' # ?name) = ?name"
    by (simp add: path_name_def)
  have r: "rfind CHR ''.'' ?name = Some (length stem)"
    using assms by (simp add: rfind_last)
  show ?thesis using assms by (simp add: path_suffix_def n r Let_def)
qed

lemma path_suffix_audio: "path_suffix (audio_file_path_of index) = ''.mp3''"
proof -
  have "path_suffix (''audio_files'' @ CHR ''/'' # str_int index @ CHR ''.'' # ''mp3'') = CHR ''.'' # ''mp3''"
    by (rule path_suffix_named) (simp_all add: str_int_nonempty str_int_no_slash)
  then show ?thesis by (simp add: audio_file_path_of_eq)
qed

lemma mp3_allowed: "lower ''.mp3'' \<in> audio_file_types"
  by (simp add: lower_def lower_char_def audio_file_types_def audio_file_types_list_def)

section \<open>The world under the primitive steps\<close>

lemma files_emit: "files (emit e w) = files w"
  by (simp add: emit_def)

lemma trace_emit: "trace (emit e w) = trace w @ [e]"
  by (simp add: emit_def)

lemma files_print: "files (print s w) = files w"
  by (simp add: print_def files_emit)

lemma trace_print: "trace (print s w) = trace w @ [Print s]"
  by (simp add: print_def trace_emit)

lemma str_int_1: "str_int 1 = ''1''"
  by (simp add: str_int_def str_nat.simps digit_char_def)

lemma str_int_2: "str_int 2 = ''2''"
  by (simp add: str_int_def str_nat.simps digit_char_def)

section \<open>The indices of a run\<close>

lemma py_enumerate_fst: "map fst (py_enumerate n xs) = map (\<lambda>k. n + int k) [0..<length xs]"
proof (induction xs arbitrary: n)
  case Nil
  show ?case by simp
next
  case (Cons x xs)
  have "map (\<lambda>k. n + int k) [0..<Suc (length xs)] = n # map (\<lambda>k. n + int (Suc k)) [0..<length xs]"
    by (simp only: upt_conv_Cons [of 0] map_Suc_upt [symmetric]) (simp add: comp_def)
  then show ?case using Cons.IH [of "n + 1"] by (simp add: add.assoc add.commute)
qed

lemma py_enumerate_snd: "map snd (py_enumerate n xs) = xs"
  by (induction xs arbitrary: n) simp_all

section \<open>The audio cache\<close>

text \<open>
  Claim C5. When a file is already at \<^verbatim>\<open>audio_files/<index>.mp3\<close>, \<open>download_audio\<close> returns
  that path for every video identifier, leaves the disk as it is, and the only thing it does
  is print one line: the extractor is not called.
\<close>

theorem download_audio_cached:
  "files w (audio_file_path_of index) \<noteq> None \<Longrightarrow>
     fst (download_audio sv video_id index w) = Some (audio_file_path_of index)
     \<and> files (snd (download_audio sv video_id index w)) = files w
     \<and> events_since w (snd (download_audio sv video_id index w)) =
         [Print (''Audio file '' @ audio_file_path_of index @ '' already exists. Skipping download.'')]"
  by (simp add: download_audio_def os_path_exists_def files_print trace_print events_since_def Let_def)

theorem download_audio_cached_witness:
  "files done_world (audio_file_path_of 1) \<noteq> None
   \<and> fst (download_audio demo_services ''nodl'' 1 done_world) = Some ''audio_files/1.mp3''
   \<and> events_since done_world (snd (download_audio demo_services ''nodl'' 1 done_world)) =
        [Print ''Audio file audio_files/1.mp3 already exists. Skipping download.'']"
proof -
  have p: "audio_file_path_of 1 = ''audio_files/1.mp3''"
    by (simp add: audio_file_path_of_eq str_int_1)
  have h: "files done_world (audio_file_path_of 1) \<noteq> None"
    by (simp add: p done_world_def)
  show ?thesis using h download_audio_cached [OF h, of demo_services "''nodl''"] by (simp add: p)
qed

section \<open>The steps of the pipeline\<close>

lemma get_video_details_eq:
  "get_video_details yt video_id w =
     (case videos_list yt video_id of
        Inl e \<Rightarrow> Inl e
      | Inr response \<Rightarrow> Inr (case get_items response of [] \<Rightarrow> None | item # _ \<Rightarrow> Some item),
      emit (VideosList video_id) w)"
  by (simp add: get_video_details_def Let_def split: sum.splits)

lemma check_for_transcription_eq:
  "check_for_transcription yt video_id w =
     (case captions_list yt video_id of
        Inl e \<Rightarrow> Inl e
      | Inr response \<Rightarrow> Inr (caption_loop (get_items response)),
      emit (CaptionsList video_id) w)"
  by (simp add: check_for_transcription_def Let_def split: sum.splits)

lemma caption_loop_iff: "caption_loop items = (\<exists>t\<in>set items. trackKind t \<noteq> ''ASR'')"
  by (induction items) simp_all

lemma process_video_output_exists:
  assumes "files w (transcription_file_path index) \<noteq> None"
  shows "process_video sv environ yt video_id index w =
     (case videos_list yt video_id of
        Inl e \<Rightarrow> (Inl e, emit (VideosList video_id) w)
      | Inr response \<Rightarrow>
          (case get_items response of
             [] \<Rightarrow> (Inr (), print (''Video details not found for ID: '' @ video_id)
                              (emit (VideosList video_id) w))
           | item # _ \<Rightarrow>
               (Inr (), print (''Transcription file '' @ transcription_file_path index
                         @ '' already exists. Skipping transcription and formatting.'')
                         (print (''Processing video: '' @ title item)
                            (emit (VideosList video_id) w)))))"
  using assms
  by (simp add: process_video_def get_video_details_eq os_path_exists_def files_print files_emit
      Let_def split: sum.splits list.splits)

text \<open>
  Claim C1, as the code has it. \<open>process_video\<close> asks the video service for the details
  before it looks at the disk. When \<^verbatim>\<open>transcriptions/<index>.md\<close> exists, the disk is left
  unchanged and the one call made is this fetch of the details; after it come only printed
  lines: no caption listing, no download, no transcription, no formatting, no write.
\<close>

theorem terminal_skip_after_details:
  assumes "files w (transcription_file_path index) \<noteq> None"
  shows "files (snd (process_video sv environ yt video_id index w)) = files w
    \<and> events_since w (snd (process_video sv environ yt video_id index w)) =
        VideosList video_id #
        (case videos_list yt video_id of
           Inl e \<Rightarrow> []
         | Inr response \<Rightarrow>
             (case get_items response of
                [] \<Rightarrow> [Print (''Video details not found for ID: '' @ video_id)]
              | item # _ \<Rightarrow>
                  [Print (''Processing video: '' @ title item),
                   Print (''Transcription file '' @ transcription_file_path index
                     @ '' already exists. Skipping transcription and formatting.'')]))"
  by (simp add: process_video_output_exists [OF assms] events_since_def files_print files_emit
      trace_print trace_emit split: sum.splits list.splits)

lemma tfp_1: "transcription_file_path 1 = ''transcriptions/1.md''"
  by (simp add: transcription_file_path_eq str_int_1)

theorem terminal_skip_after_details_witness:
  "files done_world (transcription_file_path 1) \<noteq> None
   \<and> files (snd (process_video demo_services demo_environ demo_youtube ''ok'' 1 done_world)) =
       files done_world
   \<and> events_since done_world
        (snd (process_video demo_services demo_environ demo_youtube ''ok'' 1 done_world)) =
       [VideosList ''ok'', Print ''Processing video: T'',
        Print ''Transcription file transcriptions/1.md already exists. Skipping transcription and formatting.'']"
proof -
  have h: "files done_world (transcription_file_path 1) \<noteq> None"
    by (simp add: tfp_1 done_world_def)
  show ?thesis
    using h terminal_skip_after_details [OF h, of demo_services demo_environ demo_youtube "''ok''"]
    by (simp add: tfp_1 demo_youtube_def get_items_def)
qed

text \<open>
  Claim C1 as stated fails: with the output file of index 1 on the disk, the first thing
  \<open>process_video\<close> does for the video is the call for its details.
\<close>

theorem terminal_skip_fetches_details:
  "files done_world (transcription_file_path 1) \<noteq> None
   \<and> hd (events_since done_world
        (snd (process_video demo_services demo_environ demo_youtube ''ok'' 1 done_world))) =
       VideosList ''ok''
   \<and> is_details_call (VideosList ''ok'')"
proof -
  have h: "files done_world (transcription_file_path 1) \<noteq> None"
    by (simp add: tfp_1 done_world_def)
  have "process_video demo_services demo_environ demo_youtube ''ok'' 1 done_world =
      (Inr (), print (''Transcription file '' @ transcription_file_path 1
                         @ '' already exists. Skipping transcription and formatting.'')
                         (print (''Processing video: '' @ ''T'')
                            (emit (VideosList ''ok'') done_world)))"
    by (simp add: process_video_output_exists [OF h] demo_youtube_def get_items_def)
  then show ?thesis using h
    by (simp add: events_since_def trace_print trace_emit)
qed

section \<open>The check of the extension\<close>

lemma transcribe_audio_unsupported:
  "lower (path_suffix p) \<notin> audio_file_types \<Longrightarrow>
     transcribe_audio sv environ p w =
       (Inl (ValueError (''Unsupported audio format for '' @ p
               @ ''. Supported formats: '' @ audio_file_types_repr)), w)"
  by (simp add: transcribe_audio_def)

lemma transcribe_audio_supported:
  "lower (path_suffix p) \<in> audio_file_types \<Longrightarrow>
     transcribe_audio sv environ p w =
       (case files w p of
          None \<Rightarrow> (Inl (FileNotFoundError p), w)
        | Some f \<Rightarrow>
            (case requests_post sv transcriptions_url
                    (''Bearer '' @ fmt_opt (environ ''GROQ_API_KEY'')) f of
               Inl m \<Rightarrow> Inl (OtherError m)
             | Inr response \<Rightarrow>
                 if status_code response = 200 then
                   (case json_text response of None \<Rightarrow> Inl (OtherError ''text'') | Some t \<Rightarrow> Inr t)
                 else Inl (PyException (''Transcription failed: '' @ resp_text response)),
             emit (RequestsPost transcriptions_url
                     (''Bearer '' @ fmt_opt (environ ''GROQ_API_KEY'')) f) w))"
  by (simp add: transcribe_audio_def Let_def split: option.splits sum.splits)

lemma transcribe_audio_no_value_error:
  "lower (path_suffix p) \<in> audio_file_types \<Longrightarrow>
     fst (transcribe_audio sv environ p w) \<noteq> Inl (ValueError m)"
  by (simp add: transcribe_audio_supported split: option.splits sum.splits)

text \<open>
  Claim C8. The extension is the suffix of the path in lower case, the allow-list is
  \<open>audio_file_types\<close>. For an extension outside the list \<open>transcribe_audio\<close> raises the
  \<open>ValueError\<close> and the world is what it was: no request was sent. For an extension in the
  list it never raises a \<open>ValueError\<close>.
\<close>

theorem transcribe_checks_extension:
  "(lower (path_suffix p) \<notin> audio_file_types \<longrightarrow>
      (\<exists>m. fst (transcribe_audio sv environ p w) = Inl (ValueError m))
      \<and> snd (transcribe_audio sv environ p w) = w
      \<and> events_since w (snd (transcribe_audio sv environ p w)) = [])
   \<and> (lower (path_suffix p) \<in> audio_file_types \<longrightarrow>
      (\<forall>m. fst (transcribe_audio sv environ p w) \<noteq> Inl (ValueError m)))"
  by (simp add: transcribe_audio_unsupported transcribe_audio_no_value_error events_since_def)

lemma suffix_txt: "lower (path_suffix ''notes.txt'') = ''.txt''"
  by (simp add: path_suffix_def path_name_def path_parts_def rfind_def lower_def lower_char_def)

lemma suffix_upper_mp3: "lower (path_suffix ''audio_files/1.MP3'') = ''.mp3''"
  by (simp add: path_suffix_def path_name_def path_parts_def rfind_def lower_def lower_char_def)

lemma audio_file_types_eq: "audio_file_types = {''.mp3'', ''.wav'', ''.m4a'', ''.flac''}"
  by (simp add: audio_file_types_def audio_file_types_list_def)

theorem transcribe_checks_extension_witness:
  "lower (path_suffix ''notes.txt'') \<notin> audio_file_types
   \<and> (\<exists>m. fst (transcribe_audio demo_services demo_environ ''notes.txt'' done_world) = Inl (ValueError m))
   \<and> snd (transcribe_audio demo_services demo_environ ''notes.txt'' done_world) = done_world
   \<and> lower (path_suffix ''audio_files/1.MP3'') \<in> audio_file_types
   \<and> (\<forall>m. fst (transcribe_audio demo_services demo_environ ''audio_files/1.MP3'' done_world)
          \<noteq> Inl (ValueError m))"
proof -
  have a: "lower (path_suffix ''notes.txt'') \<notin> audio_file_types"
    by (simp add: suffix_txt audio_file_types_eq)
  have b: "lower (path_suffix ''audio_files/1.MP3'') \<in> audio_file_types"
    by (simp add: suffix_upper_mp3 audio_file_types_eq)
  show ?thesis
    using a b transcribe_checks_extension [of "''notes.txt''" demo_services demo_environ done_world]
      transcribe_checks_extension [of "''audio_files/1.MP3''" demo_services demo_environ done_world]
    by blast
qed

lemma download_audio_path:
  "download_audio sv video_id index w = (Some p, w') \<Longrightarrow> p = audio_file_path_of index"
  by (auto simp: download_audio_def Let_def split: if_splits sum.splits)

section \<open>The gate of the manual captions\<close>

lemma process_video_manual:
  assumes "captions_list yt video_id = Inr cr" "caption_loop (get_items cr)"
  shows "files (snd (process_video sv environ yt video_id index w)) = files w
    \<and> (\<forall>e\<in>set (events_since w (snd (process_video sv environ yt video_id index w))).
          \<not> is_extractor_call e \<and> \<not> is_transcription_call e \<and> \<not> is_formatting_call e
          \<and> \<not> is_file_write e)"
  using assms
  by (simp add: process_video_def get_video_details_eq check_for_transcription_eq Let_def
      events_since_def trace_print trace_emit files_print files_emit os_path_exists_def
      split: sum.splits list.splits)

text \<open>
  Claim C4. \<open>check_for_transcription\<close> returns \<open>True\<close> exactly when the service lists the
  tracks and one of them has a kind other than \<^verbatim>\<open>ASR\<close> (the loop returns at the first such
  track). Whenever it returns \<open>True\<close> for a video, \<open>process_video\<close> calls neither the
  extractor nor the transcription service nor the formatting service for this video, writes
  no file and leaves the disk unchanged.
\<close>

theorem manual_caption_exclusive:
  "(fst (check_for_transcription yt video_id w) = Inr True \<longleftrightarrow>
      (\<exists>response. captions_list yt video_id = Inr response
         \<and> (\<exists>t\<in>set (get_items response). trackKind t \<noteq> ''ASR'')))
   \<and> (fst (check_for_transcription yt video_id w) = Inr True \<longrightarrow>
        files (snd (process_video sv environ yt video_id index w0)) = files w0
        \<and> (\<forall>e\<in>set (events_since w0 (snd (process_video sv environ yt video_id index w0))).
              \<not> is_extractor_call e \<and> \<not> is_transcription_call e \<and> \<not> is_formatting_call e
              \<and> \<not> is_file_write e))"
proof -
  have a: "fst (check_for_transcription yt video_id w) = Inr True \<longleftrightarrow>
      (\<exists>response. captions_list yt video_id = Inr response
         \<and> (\<exists>t\<in>set (get_items response). trackKind t \<noteq> ''ASR''))"
    by (cases "captions_list yt video_id")
       (simp_all add: check_for_transcription_eq caption_loop_iff)
  have b: "fst (check_for_transcription yt video_id w) = Inr True \<Longrightarrow>
        files (snd (process_video sv environ yt video_id index w0)) = files w0
        \<and> (\<forall>e\<in>set (events_since w0 (snd (process_video sv environ yt video_id index w0))).
              \<not> is_extractor_call e \<and> \<not> is_transcription_call e \<and> \<not> is_formatting_call e
              \<and> \<not> is_file_write e)"
  proof -
    assume "fst (check_for_transcription yt video_id w) = Inr True"
    then obtain cr where "captions_list yt video_id = Inr cr" "caption_loop (get_items cr)"
      by (cases "captions_list yt video_id") (simp_all add: check_for_transcription_eq)
    then show ?thesis by (rule process_video_manual)
  qed
  show ?thesis using a b by blast
qed

theorem manual_caption_exclusive_witness:
  "fst (check_for_transcription demo_youtube ''manual'' empty_world) = Inr True
   \<and> events_since empty_world
        (snd (process_video demo_services demo_environ demo_youtube ''manual'' 1 empty_world)) =
       [VideosList ''manual'', Print ''Processing video: T'', CaptionsList ''manual'',
        Print ''Video ID manual already has a transcription. Skipping download and transcription.'']
   \<and> files (snd (process_video demo_services demo_environ demo_youtube ''manual'' 1 empty_world)) =
       files empty_world
   \<and> fst (check_for_transcription demo_youtube ''ok'' empty_world) = Inr False"
proof -
  have c: "fst (check_for_transcription demo_youtube ''manual'' empty_world) = Inr True"
    by (simp add: check_for_transcription_eq demo_youtube_def get_items_def)
  have e: "events_since empty_world
        (snd (process_video demo_services demo_environ demo_youtube ''manual'' 1 empty_world)) =
       [VideosList ''manual'', Print ''Processing video: T'', CaptionsList ''manual'',
        Print ''Video ID manual already has a transcription. Skipping download and transcription.'']"
    by (simp add: process_video_def get_video_details_eq check_for_transcription_eq Let_def
        events_since_def trace_print trace_emit files_print files_emit os_path_exists_def
        demo_youtube_def get_items_def empty_world_def)
  have n: "fst (check_for_transcription demo_youtube ''ok'' empty_world) = Inr False"
    by (simp add: check_for_transcription_eq demo_youtube_def get_items_def)
  show ?thesis
    using c e n manual_caption_exclusive
      [of demo_youtube "''manual''" empty_world demo_services demo_environ 1 empty_world]
    by blast
qed

section \<open>A refused transcription\<close>

lemma transcribe_audio_failed_iff:
  "(\<exists>w'. transcribe_audio sv environ p w = (Inl (PyException m), w')) \<longleftrightarrow>
     (lower (path_suffix p) \<in> audio_file_types
      \<and> (\<exists>f response. files w p = Some f
            \<and> requests_post sv transcriptions_url
                 (''Bearer '' @ fmt_opt (environ ''GROQ_API_KEY'')) f = Inr response
            \<and> status_code response \<noteq> 200
            \<and> m = ''Transcription failed: '' @ resp_text response))"
proof (cases "lower (path_suffix p) \<in> audio_file_types")
  case False
  then show ?thesis by (simp add: transcribe_audio_unsupported)
next
  case True
  then show ?thesis
    by (auto simp: transcribe_audio_supported split: option.splits sum.splits)
qed

lemma process_video_transcription_error:
  assumes v: "videos_list yt video_id = Inr vr" "get_items vr \<noteq> []"
    and t: "files w (transcription_file_path index) = None"
    and c: "captions_list yt video_id = Inr cr" "\<not> caption_loop (get_items cr)"
    and a: "files w (audio_file_path_of index) = Some f
            \<or> (files w (audio_file_path_of index) = None
                \<and> ydl_download sv (watch_url video_id) (audio_file_basename index) = Inr f)"
    and r: "requests_post sv transcriptions_url
              (''Bearer '' @ fmt_opt (environ ''GROQ_API_KEY'')) f = Inr response"
           "status_code response \<noteq> 200"
  shows "fst (process_video sv environ yt video_id index w) = Inr ()
    \<and> files (snd (process_video sv environ yt video_id index w)) (audio_file_path_of index) = Some f
    \<and> files (snd (process_video sv environ yt video_id index w)) (transcription_file_path index) = None
    \<and> last (trace (snd (process_video sv environ yt video_id index w))) =
         Print (''Transcription failed for '' @ audio_file_path_of index
                  @ '': Transcription failed: '' @ resp_text response)
    \<and> (\<forall>e\<in>set (events_since w (snd (process_video sv environ yt video_id index w))).
          \<not> is_formatting_call e \<and> \<not> is_file_write e)"
proof -
  have s: "lower (path_suffix (audio_file_path_of index)) \<in> audio_file_types"
    by (simp add: path_suffix_audio mp3_allowed)
  have ne: "audio_file_path_of index \<noteq> []" by (simp add: audio_file_path_of_eq)
  have nt: "audio_file_path_of index \<noteq> transcription_file_path index"
    by (rule audio_neq_transcription)
  from a show ?thesis
  proof
    assume "files w (audio_file_path_of index) = Some f"
    then show ?thesis using v t c r s ne
      by (simp add: process_video_def get_video_details_eq check_for_transcription_eq Let_def
          download_audio_def transcribe_audio_supported
          events_since_def trace_print trace_emit files_print files_emit os_path_exists_def
          split: list.splits)
  next
    assume "files w (audio_file_path_of index) = None
       \<and> ydl_download sv (watch_url video_id) (audio_file_basename index) = Inr f"
    then show ?thesis using v t c r s ne nt
      by (simp add: process_video_def get_video_details_eq check_for_transcription_eq Let_def
          download_audio_def transcribe_audio_supported
          events_since_def trace_print trace_emit files_print files_emit os_path_exists_def
          split: list.splits)
  qed
qed

lemma process_all_continue:
  "fst (process_video sv environ yt video_id index w) = Inr () \<Longrightarrow>
     process_all sv environ yt ((index, video_id) # rest) w =
       process_all sv environ yt rest (snd (process_video sv environ yt video_id index w))"
  by (cases "process_video sv environ yt video_id index w") simp

text \<open>
  Claim C9. \<open>transcribe_audio\<close> raises the plain exception whose message is
  \<^verbatim>\<open>Transcription failed: \<close> followed by the raw body exactly when the request was sent and
  the response has a status other than 200. Inside \<open>process_video\<close> this exception is caught:
  for a video that reaches the transcription (details found, no output file, no manual
  caption, audio cached or downloaded) and whose response is not a 200, \<open>process_video\<close>
  returns normally, its last act is the printed line with the message, the audio file is
  still on the disk, nothing is formatted or written, and the loop goes on with the rest of
  the catalog.
\<close>

theorem transcription_failure_non_fatal:
  "((\<exists>w'. transcribe_audio sv environ p w = (Inl (PyException m), w')) \<longleftrightarrow>
      (lower (path_suffix p) \<in> audio_file_types
       \<and> (\<exists>f response. files w p = Some f
             \<and> requests_post sv transcriptions_url
                  (''Bearer '' @ fmt_opt (environ ''GROQ_API_KEY'')) f = Inr response
             \<and> status_code response \<noteq> 200
             \<and> m = ''Transcription failed: '' @ resp_text response)))
   \<and> (videos_list yt video_id = Inr vr \<and> get_items vr \<noteq> []
       \<and> files w0 (transcription_file_path index) = None
       \<and> captions_list yt video_id = Inr cr \<and> \<not> caption_loop (get_items cr)
       \<and> (files w0 (audio_file_path_of index) = Some f0
            \<or> (files w0 (audio_file_path_of index) = None
                \<and> ydl_download sv (watch_url video_id) (audio_file_basename index) = Inr f0))
       \<and> requests_post sv transcriptions_url
            (''Bearer '' @ fmt_opt (environ ''GROQ_API_KEY'')) f0 = Inr response0
       \<and> status_code response0 \<noteq> 200
       \<longrightarrow>
         fst (process_video sv environ yt video_id index w0) = Inr ()
         \<and> files (snd (process_video sv environ yt video_id index w0)) (audio_file_path_of index)
             = Some f0
         \<and> files (snd (process_video sv environ yt video_id index w0))
             (transcription_file_path index) = None
         \<and> last (trace (snd (process_video sv environ yt video_id index w0))) =
             Print (''Transcription failed for '' @ audio_file_path_of index
                      @ '': Transcription failed: '' @ resp_text response0)
         \<and> (\<forall>e\<in>set (events_since w0 (snd (process_video sv environ yt video_id index w0))).
               \<not> is_formatting_call e \<and> \<not> is_file_write e)
         \<and> process_all sv environ yt ((index, video_id) # rest) w0 =
             process_all sv environ yt rest (snd (process_video sv environ yt video_id index w0)))"
proof (intro conjI impI)
  show "(\<exists>w'. transcribe_audio sv environ p w = (Inl (PyException m), w')) \<longleftrightarrow>
      (lower (path_suffix p) \<in> audio_file_types
       \<and> (\<exists>f response. files w p = Some f
             \<and> requests_post sv transcriptions_url
                  (''Bearer '' @ fmt_opt (environ ''GROQ_API_KEY'')) f = Inr response
             \<and> status_code response \<noteq> 200
             \<and> m = ''Transcription failed: '' @ resp_text response))"
    by (rule transcribe_audio_failed_iff)
next
  assume h: "videos_list yt video_id = Inr vr \<and> get_items vr \<noteq> []
       \<and> files w0 (transcription_file_path index) = None
       \<and> captions_list yt video_id = Inr cr \<and> \<not> caption_loop (get_items cr)
       \<and> (files w0 (audio_file_path_of index) = Some f0
            \<or> (files w0 (audio_file_path_of index) = None
                \<and> ydl_download sv (watch_url video_id) (audio_file_basename index) = Inr f0))
       \<and> requests_post sv transcriptions_url
            (''Bearer '' @ fmt_opt (environ ''GROQ_API_KEY'')) f0 = Inr response0
       \<and> status_code response0 \<noteq> 200"
  have k: "fst (process_video sv environ yt video_id index w0) = Inr ()
    \<and> files (snd (process_video sv environ yt video_id index w0)) (audio_file_path_of index) = Some f0
    \<and> files (snd (process_video sv environ yt video_id index w0)) (transcription_file_path index) = None
    \<and> last (trace (snd (process_video sv environ yt video_id index w0))) =
         Print (''Transcription failed for '' @ audio_file_path_of index
                  @ '': Transcription failed: '' @ resp_text response0)
    \<and> (\<forall>e\<in>set (events_since w0 (snd (process_video sv environ yt video_id index w0))).
          \<not> is_formatting_call e \<and> \<not> is_file_write e)"
    using h by (intro process_video_transcription_error [of yt video_id vr w0 index cr f0 sv environ response0]) simp_all
  then have c: "process_all sv environ yt ((index, video_id) # rest) w0 =
      process_all sv environ yt rest (snd (process_video sv environ yt video_id index w0))"
    by (intro process_all_continue) simp
  show "fst (process_video sv environ yt video_id index w0) = Inr ()" using k by simp
  show "files (snd (process_video sv environ yt video_id index w0)) (audio_file_path_of index)
             = Some f0" using k by simp
  show "files (snd (process_video sv environ yt video_id index w0))
             (transcription_file_path index) = None" using k by simp
  show "last (trace (snd (process_video sv environ yt video_id index w0))) =
             Print (''Transcription failed for '' @ audio_file_path_of index
                      @ '': Transcription failed: '' @ resp_text response0)" using k by simp
  show "\<forall>e\<in>set (events_since w0 (snd (process_video sv environ yt video_id index w0))).
               \<not> is_formatting_call e \<and> \<not> is_file_write e" using k by simp
  show "process_all sv environ yt ((index, video_id) # rest) w0 =
             process_all sv environ yt rest (snd (process_video sv environ yt video_id index w0))"
    by (rule c)
qed

lemma afp_2: "audio_file_path_of 2 = ''audio_files/2.mp3''"
  by (simp add: audio_file_path_of_eq str_int_2)

theorem transcription_failure_non_fatal_witness:
  "videos_list demo_youtube ''f500'' = Inr (Some [\<lparr>title = ''T''\<rparr>])
   \<and> get_items (Some [\<lparr>title = ''T''\<rparr>]) \<noteq> []
   \<and> files empty_world (transcription_file_path 2) = None
   \<and> captions_list demo_youtube ''f500'' = Inr (Some [\<lparr>trackKind = ''ASR''\<rparr>])
   \<and> \<not> caption_loop (get_items (Some [\<lparr>trackKind = ''ASR''\<rparr>]))
   \<and> files empty_world (audio_file_path_of 2) = None
   \<and> ydl_download demo_services (watch_url ''f500'') (audio_file_basename 2) = Inr ''A5''
   \<and> requests_post demo_services transcriptions_url
        (''Bearer '' @ fmt_opt (demo_environ ''GROQ_API_KEY'')) ''A5''
        = Inr \<lparr>status_code = 500, resp_text = ''E4'', json_text = None\<rparr>
   \<and> fst (process_video demo_services demo_environ demo_youtube ''f500'' 2 empty_world) = Inr ()
   \<and> files (snd (process_video demo_services demo_environ demo_youtube ''f500'' 2 empty_world))
        ''audio_files/2.mp3'' = Some ''A5''
   \<and> last (trace (snd (process_video demo_services demo_environ demo_youtube ''f500'' 2 empty_world)))
        = Print ''Transcription failed for audio_files/2.mp3: Transcription failed: E4''
   \<and> process_all demo_services demo_environ demo_youtube [(2, ''f500''), (3, ''ok'')] empty_world =
       process_all demo_services demo_environ demo_youtube [(3, ''ok'')]
         (snd (process_video demo_services demo_environ demo_youtube ''f500'' 2 empty_world))"
proof -
  have h1: "videos_list demo_youtube ''f500'' = Inr (Some [\<lparr>title = ''T''\<rparr>])"
    by (simp add: demo_youtube_def)
  have h2: "get_items (Some [\<lparr>title = ''T''\<rparr>]) \<noteq> []" by (simp add: get_items_def)
  have h3: "files empty_world (transcription_file_path 2) = None" by (simp add: empty_world_def)
  have h4: "captions_list demo_youtube ''f500'' = Inr (Some [\<lparr>trackKind = ''ASR''\<rparr>])"
    by (simp add: demo_youtube_def)
  have h5: "\<not> caption_loop (get_items (Some [\<lparr>trackKind = ''ASR''\<rparr>]))"
    by (simp add: get_items_def)
  have h6: "files empty_world (audio_file_path_of 2) = None" by (simp add: empty_world_def)
  have h7: "ydl_download demo_services (watch_url ''f500'') (audio_file_basename 2) = Inr ''A5''"
    by (simp add: demo_services_def watch_url_def)
  have h8: "requests_post demo_services transcriptions_url
        (''Bearer '' @ fmt_opt (demo_environ ''GROQ_API_KEY'')) ''A5''
        = Inr \<lparr>status_code = 500, resp_text = ''E4'', json_text = None\<rparr>"
    by (simp add: demo_services_def)
  have h9: "status_code \<lparr>status_code = 500, resp_text = ''E4'', json_text = None\<rparr> \<noteq> 200"
    by simp
  show ?thesis
    using h1 h2 h3 h4 h5 h6 h7 h8 h9
      transcription_failure_non_fatal [of demo_services demo_environ "''x''" empty_world "''m''"
        demo_youtube "''f500''" "Some [\<lparr>title = ''T''\<rparr>]" empty_world 2
        "Some [\<lparr>trackKind = ''ASR''\<rparr>]" "''A5''"
        "\<lparr>status_code = 500, resp_text = ''E4'', json_text = None\<rparr>" "[(3, ''ok'')]"]
    by (simp add: afp_2)
qed

section \<open>One video among the others\<close>

lemmas pipeline_defs =
  process_video_def get_video_details_eq check_for_transcription_eq download_audio_def
  transcribe_audio_def format_transcription_def query_groq_def write_transcription_def
  Let_def os_path_exists_def

lemmas world_simps = files_print files_emit trace_print trace_emit

lemma audio_file_path_of_nonempty: "audio_file_path_of index \<noteq> []"
  by (simp add: audio_file_path_of_eq)

lemmas path_simps = path_suffix_audio mp3_allowed audio_file_path_of_nonempty

lemma transcription_neq_audio: "transcription_file_path j \<noteq> audio_file_path_of i"
  using audio_neq_transcription [of i j] by (rule not_sym)

lemma process_video_local:
  assumes a: "files w1 (audio_file_path_of index) = files w2 (audio_file_path_of index)"
    and t: "files w1 (transcription_file_path index) = files w2 (transcription_file_path index)"
  shows "fst (process_video sv environ yt video_id index w1) =
           fst (process_video sv environ yt video_id index w2)
    \<and> events_since w1 (snd (process_video sv environ yt video_id index w1)) =
        events_since w2 (snd (process_video sv environ yt video_id index w2))
    \<and> files (snd (process_video sv environ yt video_id index w1)) (audio_file_path_of index) =
        files (snd (process_video sv environ yt video_id index w2)) (audio_file_path_of index)
    \<and> files (snd (process_video sv environ yt video_id index w1)) (transcription_file_path index) =
        files (snd (process_video sv environ yt video_id index w2)) (transcription_file_path index)"
proof -
  note defs = pipeline_defs world_simps path_simps events_since_def
    audio_neq_transcription transcription_neq_audio
  show ?thesis
  proof (cases "videos_list yt video_id")
    case (Inl e)
    then show ?thesis using a t by (simp add: defs)
  next
    case (Inr vr)
    note V = this
    show ?thesis
    proof (cases "get_items vr")
      case Nil
      then show ?thesis using V a t by (simp add: defs)
    next
      case (Cons item more)
      note I = this
      show ?thesis
      proof (cases "files w2 (transcription_file_path index)")
        case (Some x)
        then show ?thesis using V I a t by (simp add: defs)
      next
        case None
        note T = this
        show ?thesis
        proof (cases "captions_list yt video_id")
          case (Inl e)
          then show ?thesis using V I T a t by (simp add: defs)
        next
          case (Inr cr)
          note C = this
          show ?thesis
          proof (cases "caption_loop (get_items cr)")
            case True
            then show ?thesis using V I T C a t by (simp add: defs)
          next
            case False
            note L = this
            show ?thesis
            proof (cases "files w2 (audio_file_path_of index)")
              case (Some f)
              then show ?thesis using V I T C L a t
                by (simp add: defs split: sum.split option.split write_outcome.split)
            next
              case None
              note A = this
              show ?thesis
              proof (cases "ydl_download sv (watch_url video_id) (audio_file_basename index)")
                case (Inl m)
                then show ?thesis using V I T C L A a t by (simp add: defs)
              next
                case (Inr f)
                then show ?thesis using V I T C L A a t
                  by (simp add: defs split: sum.split option.split write_outcome.split)
              qed
            qed
          qed
        qed
      qed
    qed
  qed
qed

lemma process_video_frame:
  assumes "p \<noteq> audio_file_path_of index" "p \<noteq> transcription_file_path index"
  shows "files (snd (process_video sv environ yt video_id index w)) p = files w p"
  using assms
  by (simp add: pipeline_defs world_simps path_simps
      split: sum.splits list.splits option.splits write_outcome.splits bool.splits)

lemma process_all_abort:
  "fst (process_video sv environ yt video_id index w) = Inl e \<Longrightarrow>
     process_all sv environ yt ((index, video_id) # rest) w =
       (Inl e, snd (process_video sv environ yt video_id index w))"
  by (cases "process_video sv environ yt video_id index w") simp

lemma process_all_append:
  "process_all sv environ yt (xs @ ys) w =
     (case process_all sv environ yt xs w of
        (Inl e, w') \<Rightarrow> (Inl e, w')
      | (Inr u, w') \<Rightarrow> process_all sv environ yt ys w')"
proof (induction xs arbitrary: w)
  case Nil
  show ?case by simp
next
  case (Cons x xs)
  obtain index video_id where x: "x = (index, video_id)" by (cases x)
  show ?case
    by (cases "process_video sv environ yt video_id index w")
       (simp add: x Cons.IH split: sum.splits)
qed

lemma process_all_frame:
  assumes "\<forall>k\<in>fst ` set pre. p \<noteq> audio_file_path_of k \<and> p \<noteq> transcription_file_path k"
  shows "files (snd (process_all sv environ yt pre w)) p = files w p"
  using assms
proof (induction pre arbitrary: w)
  case Nil
  show ?case by simp
next
  case (Cons x pre)
  obtain index video_id where x: "x = (index, video_id)" by (cases x)
  have f: "files (snd (process_video sv environ yt video_id index w)) p = files w p"
    using Cons.prems by (intro process_video_frame) (simp_all add: x)
  have r: "\<And>w'. files (snd (process_all sv environ yt pre w')) p = files w' p"
    using Cons.prems by (intro Cons.IH) simp
  show ?case
  proof (cases "process_video sv environ yt video_id index w")
    case (Pair res w')
    then show ?thesis using f r [of w'] by (cases res) (simp_all add: x)
  qed
qed

lemma process_all_keeps_other_paths:
  assumes "j \<notin> fst ` set pre"
  shows "files (snd (process_all sv environ yt pre w)) (audio_file_path_of j) =
           files w (audio_file_path_of j)
    \<and> files (snd (process_all sv environ yt pre w)) (transcription_file_path j) =
           files w (transcription_file_path j)"
proof -
  have k: "\<And>k. k \<in> fst ` set pre \<Longrightarrow> k \<noteq> j" using assms by blast
  have a: "\<forall>k\<in>fst ` set pre. audio_file_path_of j \<noteq> audio_file_path_of k
      \<and> audio_file_path_of j \<noteq> transcription_file_path k"
    using k audio_file_path_of_inj audio_neq_transcription by blast
  have t: "\<forall>k\<in>fst ` set pre. transcription_file_path j \<noteq> audio_file_path_of k
      \<and> transcription_file_path j \<noteq> transcription_file_path k"
    using k transcription_file_path_inj transcription_neq_audio by blast
  show ?thesis using process_all_frame [OF a] process_all_frame [OF t] by simp
qed

section \<open>Runs of the small channel\<close>

lemma audio_file_path_of_eq_iff: "audio_file_path_of i = audio_file_path_of j \<longleftrightarrow> i = j"
  using audio_file_path_of_inj by blast

lemma transcription_file_path_eq_iff:
  "transcription_file_path i = transcription_file_path j \<longleftrightarrow> i = j"
  using transcription_file_path_inj by blast

lemma afb_1: "audio_file_basename 1 = ''audio_files/1''"
  by (simp add: audio_file_basename_def os_path_join_def str_int_1)

lemma format_prompt_eq_iff: "format_prompt a = format_prompt b \<longleftrightarrow> a = b"
  by (simp add: format_prompt_def)

lemmas demo_defs = format_prompt_eq_iff demo_services_def demo_youtube_def demo_environ_def empty_world_def
  get_items_def watch_url_def fmt_opt_def

lemmas run_simps = pipeline_defs world_simps path_simps audio_neq_transcription
  transcription_neq_audio audio_file_path_of_eq_iff transcription_file_path_eq_iff

lemma demo_nofmt:
  "process_video demo_services demo_environ demo_youtube ''nofmt'' 1 empty_world =
     (Inl (OtherError ''E5''),
      \<lparr>files = [audio_file_path_of 1 \<mapsto> ''A6''],
       trace = [VideosList ''nofmt'', Print ''Processing video: T'', CaptionsList ''nofmt'',
                YdlDownload ''https://www.youtube.com/watch?v=nofmt'' (audio_file_basename 1),
                RequestsPost transcriptions_url ''Bearer g'' ''A6'',
                GroqChat (Some ''g'') (format_prompt ''A6'')]\<rparr>)"
  by (simp add: run_simps demo_defs emit_def print_def)

text \<open>
  Claim C2 as stated fails at the formatting stage: the formatting of the first video
  raises, the exception leaves the loop, and the second video is never asked for.
\<close>

theorem formatting_failure_stops_batch:
  "fst (process_all demo_services demo_environ demo_youtube [(1, ''nofmt''), (2, ''ok'')]
          empty_world) = Inl (OtherError ''E5'')
   \<and> trace (snd (process_all demo_services demo_environ demo_youtube
                    [(1, ''nofmt''), (2, ''ok'')] empty_world)) =
       [VideosList ''nofmt'', Print ''Processing video: T'', CaptionsList ''nofmt'',
        YdlDownload ''https://www.youtube.com/watch?v=nofmt'' ''audio_files/1'',
        RequestsPost transcriptions_url ''Bearer g'' ''A6'',
        GroqChat (Some ''g'') (format_prompt ''A6'')]"
  by (simp add: demo_nofmt afb_1)

lemma demo_prefix:
  "fst (process_all demo_services demo_environ demo_youtube [(1, ''nodl''), (2, ''f500'')]
          empty_world) = Inr ()"
  by (simp add: run_simps demo_defs emit_def print_def)

lemma demo_ok_3:
  "fst (process_video demo_services demo_environ demo_youtube ''ok'' 3 empty_world) = Inr ()
   \<and> files (snd (process_video demo_services demo_environ demo_youtube ''ok'' 3 empty_world))
        (transcription_file_path 3) = Some ''M''"
  by (simp add: run_simps demo_defs emit_def print_def)

section \<open>Errors of the video service and the start of the program\<close>

lemma process_video_details_error:
  "videos_list yt video_id = Inl e \<Longrightarrow>
     process_video sv environ yt video_id index w = (Inl e, emit (VideosList video_id) w)"
  by (simp add: process_video_def get_video_details_eq)

lemma process_video_not_found:
  "videos_list yt video_id = Inr vr \<Longrightarrow> get_items vr = [] \<Longrightarrow>
     process_video sv environ yt video_id index w =
       (Inr (), print (''Video details not found for ID: '' @ video_id)
                  (emit (VideosList video_id) w))"
  by (simp add: process_video_def get_video_details_eq)

lemma process_video_captions_error:
  "videos_list yt video_id = Inr vr \<Longrightarrow> get_items vr \<noteq> [] \<Longrightarrow>
   files w (transcription_file_path index) = None \<Longrightarrow> captions_list yt video_id = Inl e \<Longrightarrow>
     fst (process_video sv environ yt video_id index w) = Inl e"
  by (simp add: pipeline_defs world_simps split: list.splits)

lemma main_uncaught:
  assumes "build sv (environ ''YT_API_KEY'') = Inr yt"
    and "get_video_ids yt (environ ''CHANNEL_ID'') (emit (Build (environ ''YT_API_KEY'')) w)
           = (Inr video_ids, w2)"
    and "fst (process_all sv environ yt (py_enumerate 1 video_ids)
           (print (''Found '' @ str_int (int (length video_ids)) @ '' videos.'') w2)) = Inl e"
  shows "fst (main sv environ w) = Uncaught e"
proof (cases "process_all sv environ yt (py_enumerate 1 video_ids)
           (print (''Found '' @ str_int (int (length video_ids)) @ '' videos.'') w2)")
  case (Pair r w4)
  with assms(3) have "r = Inl e" by simp
  with Pair assms(1,2) show ?thesis by (simp add: main_def Let_def)
qed

lemma main_catalog_error:
  assumes "build sv (environ ''YT_API_KEY'') = Inr yt"
    and "fst (get_video_ids yt (environ ''CHANNEL_ID'') (emit (Build (environ ''YT_API_KEY'')) w))
           = Inl (HttpError m)"
  shows "fst (main sv environ w) = Exit 1
    \<and> last (trace (snd (main sv environ w))) = Print (''An HTTP error occurred: '' @ m)"
proof (cases "get_video_ids yt (environ ''CHANNEL_ID'') (emit (Build (environ ''YT_API_KEY'')) w)")
  case (Pair r w2)
  with assms(2) have "r = Inl (HttpError m)" by simp
  with Pair assms(1) show ?thesis by (simp add: main_def Let_def trace_print)
qed

text \<open>
  What the code does with the answers of the video service. An error raised by the fetch of
  the details or by the listing of the caption tracks leaves \<open>process_video\<close> and the loop,
  and \<open>main\<close> ends with it uncaught. A response without items makes \<open>process_video\<close> print
  a line and return. An error of the catalog listing is caught in \<open>main\<close>, printed, and ends
  the program with exit code 1.
\<close>

lemma service_error_stops_batch:
  "(videos_list yt video_id = Inl e \<longrightarrow>
      process_video sv environ yt video_id index w = (Inl e, emit (VideosList video_id) w)
      \<and> process_all sv environ yt ((index, video_id) # rest) w =
          (Inl e, emit (VideosList video_id) w))
   \<and> (videos_list yt video_id = Inr vr \<and> get_items vr \<noteq> []
       \<and> files w (transcription_file_path index) = None
       \<and> captions_list yt video_id = Inl e \<longrightarrow>
      fst (process_video sv environ yt video_id index w) = Inl e
      \<and> process_all sv environ yt ((index, video_id) # rest) w =
          (Inl e, snd (process_video sv environ yt video_id index w)))
   \<and> (videos_list yt video_id = Inr vr \<and> get_items vr = [] \<longrightarrow>
      process_video sv environ yt video_id index w =
        (Inr (), print (''Video details not found for ID: '' @ video_id)
                   (emit (VideosList video_id) w)))
   \<and> (build sv (environ ''YT_API_KEY'') = Inr yt
       \<and> get_video_ids yt (environ ''CHANNEL_ID'') (emit (Build (environ ''YT_API_KEY'')) w0)
            = (Inr video_ids, w2)
       \<and> fst (process_all sv environ yt (py_enumerate 1 video_ids)
            (print (''Found '' @ str_int (int (length video_ids)) @ '' videos.'') w2)) = Inl e \<longrightarrow>
      fst (main sv environ w0) = Uncaught e)
   \<and> (build sv (environ ''YT_API_KEY'') = Inr yt
       \<and> fst (get_video_ids yt (environ ''CHANNEL_ID'') (emit (Build (environ ''YT_API_KEY'')) w0))
            = Inl (HttpError m) \<longrightarrow>
      fst (main sv environ w0) = Exit 1
      \<and> last (trace (snd (main sv environ w0))) = Print (''An HTTP error occurred: '' @ m))"
proof (intro conjI impI)
  assume v: "videos_list yt video_id = Inl e"
  then show p: "process_video sv environ yt video_id index w = (Inl e, emit (VideosList video_id) w)"
    by (rule process_video_details_error)
  show "process_all sv environ yt ((index, video_id) # rest) w =
          (Inl e, emit (VideosList video_id) w)"
    by (simp add: p)
next
  assume h: "videos_list yt video_id = Inr vr \<and> get_items vr \<noteq> []
       \<and> files w (transcription_file_path index) = None
       \<and> captions_list yt video_id = Inl e"
  then show f: "fst (process_video sv environ yt video_id index w) = Inl e"
    by (intro process_video_captions_error [of yt video_id vr w index e]) simp_all
  show "process_all sv environ yt ((index, video_id) # rest) w =
          (Inl e, snd (process_video sv environ yt video_id index w))"
    using f by (rule process_all_abort)
next
  assume "videos_list yt video_id = Inr vr \<and> get_items vr = []"
  then show "process_video sv environ yt video_id index w =
        (Inr (), print (''Video details not found for ID: '' @ video_id)
                   (emit (VideosList video_id) w))"
    by (intro process_video_not_found [of yt video_id vr]) simp_all
next
  assume "build sv (environ ''YT_API_KEY'') = Inr yt
       \<and> get_video_ids yt (environ ''CHANNEL_ID'') (emit (Build (environ ''YT_API_KEY'')) w0)
            = (Inr video_ids, w2)
       \<and> fst (process_all sv environ yt (py_enumerate 1 video_ids)
            (print (''Found '' @ str_int (int (length video_ids)) @ '' videos.'') w2)) = Inl e"
  then show "fst (main sv environ w0) = Uncaught e"
    by (intro main_uncaught [of sv environ yt w0 video_ids w2 e]) simp_all
next
  assume h: "build sv (environ ''YT_API_KEY'') = Inr yt
       \<and> fst (get_video_ids yt (environ ''CHANNEL_ID'') (emit (Build (environ ''YT_API_KEY'')) w0))
            = Inl (HttpError m)"
  have r: "fst (main sv environ w0) = Exit 1
    \<and> last (trace (snd (main sv environ w0))) = Print (''An HTTP error occurred: '' @ m)"
    using h by (intro main_catalog_error [of sv environ yt w0 m]) simp_all
  show "fst (main sv environ w0) = Exit 1" using r by simp
  show "last (trace (snd (main sv environ w0))) = Print (''An HTTP error occurred: '' @ m)"
    using r by simp
qed

text \<open>
  Claim C7 at a catalog of two videos where the service answers the call for the details of
  the first one with an error. The claim has the error caught at the video, logged, and the
  second video processed. The code has no handler around this call: the error leaves
  \<open>process_video\<close> and the loop, the run ends with it after this one call, and the second video
  is never asked for.
\<close>

theorem details_error_stops_batch:
  "process_all demo_services demo_environ demo_youtube [(1, ''bad''), (2, ''ok'')] empty_world =
     (Inl (HttpError ''E1''), emit (VideosList ''bad'') empty_world)
   \<and> trace (emit (VideosList ''bad'') empty_world) = [VideosList ''bad'']"
  by (simp add: process_video_details_error demo_youtube_def trace_emit empty_world_def)

lemma tfp_1_empty: "files empty_world (transcription_file_path 1) = None"
  by (simp add: empty_world_def)

lemma down_catalog:
  "build down_services (demo_environ ''YT_API_KEY'') = Inr down_youtube
   \<and> fst (get_video_ids down_youtube (demo_environ ''CHANNEL_ID'')
            (emit (Build (demo_environ ''YT_API_KEY'')) empty_world)) = Inl (HttpError ''E0'')"
  by (simp add: down_services_def down_youtube_def demo_services_def get_video_ids_def Let_def)

lemma service_error_stops_batch_demo:
  "videos_list demo_youtube ''bad'' = Inl (HttpError ''E1'')
   \<and> process_all demo_services demo_environ demo_youtube [(1, ''bad''), (2, ''ok'')] empty_world =
       (Inl (HttpError ''E1''), emit (VideosList ''bad'') empty_world)
   \<and> videos_list demo_youtube ''capbad'' = Inr (Some [\<lparr>title = ''T''\<rparr>])
   \<and> get_items (Some [\<lparr>title = ''T''\<rparr>]) \<noteq> []
   \<and> files empty_world (transcription_file_path 1) = None
   \<and> captions_list demo_youtube ''capbad'' = Inl (HttpError ''E2'')
   \<and> fst (process_all demo_services demo_environ demo_youtube [(1, ''capbad''), (2, ''ok'')]
            empty_world) = Inl (HttpError ''E2'')
   \<and> videos_list demo_youtube ''gone'' = Inr (Some [])
   \<and> fst (process_video demo_services demo_environ demo_youtube ''gone'' 1 empty_world) = Inr ()
   \<and> fst (main down_services demo_environ empty_world) = Exit 1"
proof -
  have b: "videos_list demo_youtube ''bad'' = Inl (HttpError ''E1'')"
    by (simp add: demo_youtube_def)
  have c1: "videos_list demo_youtube ''capbad'' = Inr (Some [\<lparr>title = ''T''\<rparr>])"
    by (simp add: demo_youtube_def)
  have c2: "get_items (Some [\<lparr>title = ''T''\<rparr>]) \<noteq> []" by (simp add: get_items_def)
  have c3: "captions_list demo_youtube ''capbad'' = Inl (HttpError ''E2'')"
    by (simp add: demo_youtube_def)
  have g1: "videos_list demo_youtube ''gone'' = Inr (Some [])" by (simp add: demo_youtube_def)
  have g2: "get_items (Some ([] :: video_item list)) = []" by (simp add: get_items_def)
  have r1: "process_all demo_services demo_environ demo_youtube [(1, ''bad''), (2, ''ok'')]
      empty_world = (Inl (HttpError ''E1''), emit (VideosList ''bad'') empty_world)"
    using b service_error_stops_batch [of demo_youtube "''bad''" "HttpError ''E1''" demo_services
        demo_environ 1 empty_world "[(2, ''ok'')]"]
    by blast
  have r2: "fst (process_all demo_services demo_environ demo_youtube [(1, ''capbad''), (2, ''ok'')]
      empty_world) = Inl (HttpError ''E2'')"
    using c1 c2 c3 tfp_1_empty
      service_error_stops_batch [of demo_youtube "''capbad''" "HttpError ''E2''" demo_services
        demo_environ 1 empty_world "[(2, ''ok'')]" "Some [\<lparr>title = ''T''\<rparr>]"]
    by simp
  have r3: "fst (process_video demo_services demo_environ demo_youtube ''gone'' 1 empty_world)
      = Inr ()"
    using g1 g2
      service_error_stops_batch [of demo_youtube "''gone''" "HttpError ''E1''" demo_services
        demo_environ 1 empty_world "[]" "Some []"]
    by simp
  have r4: "fst (main down_services demo_environ empty_world) = Exit 1"
    using down_catalog
      service_error_stops_batch [where sv = down_services and environ = demo_environ
        and yt = down_youtube and ?w0.0 = empty_world and m = "''E0''"]
    by blast
  show ?thesis using b c1 c2 c3 g1 tfp_1_empty r1 r2 r3 r4 by blast
qed

text \<open>
  The start of the program. When one of the two keys is missing or empty, the program prints
  the line that names it and exits with code 1, having done nothing else.
\<close>

lemma program_missing_key:
  assumes "falsy (environ ''GROQ_API_KEY'') \<or> falsy (environ ''YT_API_KEY'')"
  shows "fst (program sv environ w) = Exit 1
    \<and> files (snd (program sv environ w)) = files w
    \<and> events_since w (snd (program sv environ w)) =
        [Print (if falsy (environ ''GROQ_API_KEY'') then ''Error: GROQ_API_KEY is not set.''
                else ''Error: YOUTUBE_API_KEY is not set.'')]"
  using assms by (auto simp: program_def events_since_def trace_print files_print)

lemmas startup_defs = program_def makedirs_def main_def falsy_def

lemma no_channel_lookups:
  "no_channel_environ ''GROQ_API_KEY'' = Some ''g''"
  "no_channel_environ ''YT_API_KEY'' = Some ''y''"
  "no_channel_environ ''CHANNEL_ID'' = None"
  by (simp_all add: no_channel_environ_def)

lemma no_channel_catalog:
  "get_video_ids demo_youtube None w = (Inr [''nofmt'', ''ok''], emit (SearchList None 0) w)"
  by (simp add: get_video_ids_def demo_youtube_def get_items_def Let_def)

text \<open>
  Claim C6 at an environment with both keys and no \<^verbatim>\<open>CHANNEL_ID\<close>: the program does not
  stop at its start. It creates the two directories, builds the client and asks the catalog
  with no channel identifier, then goes through the videos it is given.
\<close>

theorem program_runs_without_channel:
  "no_channel_environ ''CHANNEL_ID'' = None
   \<and> fst (program demo_services no_channel_environ empty_world) \<noteq> Exit 1
   \<and> take 5 (trace (snd (program demo_services no_channel_environ empty_world))) =
       [MakeDirs ''audio_files'', MakeDirs ''transcriptions'', Build (Some ''y''),
        SearchList None 0, Print ''Found 2 videos.'']"
proof -
  have b: "build demo_services (Some ''y'') = Inr demo_youtube"
    "os_makedirs demo_services ''audio_files'' = None"
    "os_makedirs demo_services ''transcriptions'' = None"
    by (simp_all add: demo_services_def)
  have p: "process_video demo_services no_channel_environ demo_youtube ''nofmt'' 1
      (print ''Found 2 videos.'' (emit (SearchList None 0) (emit (Build (Some ''y''))
        (emit (MakeDirs ''transcriptions'') (emit (MakeDirs ''audio_files'') empty_world))))) =
      (Inl (OtherError ''E5''),
       \<lparr>files = [audio_file_path_of 1 \<mapsto> ''A6''],
        trace = [MakeDirs ''audio_files'', MakeDirs ''transcriptions'', Build (Some ''y''),
                 SearchList None 0, Print ''Found 2 videos.'',
                 VideosList ''nofmt'', Print ''Processing video: T'', CaptionsList ''nofmt'',
                 YdlDownload ''https://www.youtube.com/watch?v=nofmt'' (audio_file_basename 1),
                 RequestsPost transcriptions_url ''Bearer g'' ''A6'',
                 GroqChat (Some ''g'') (format_prompt ''A6'')]\<rparr>)"
    by (simp add: run_simps demo_services_def demo_youtube_def empty_world_def get_items_def
        watch_url_def fmt_opt_def format_prompt_eq_iff no_channel_environ_def emit_def print_def)
  have s2: "str_int (int (length [''nofmt'', ''ok''])) = ''2''" by (simp add: str_int_2)
  have "program demo_services no_channel_environ empty_world =
      (Uncaught (OtherError ''E5''),
       \<lparr>files = [audio_file_path_of 1 \<mapsto> ''A6''],
        trace = [MakeDirs ''audio_files'', MakeDirs ''transcriptions'', Build (Some ''y''),
                 SearchList None 0, Print ''Found 2 videos.'',
                 VideosList ''nofmt'', Print ''Processing video: T'', CaptionsList ''nofmt'',
                 YdlDownload ''https://www.youtube.com/watch?v=nofmt'' (audio_file_basename 1),
                 RequestsPost transcriptions_url ''Bearer g'' ''A6'',
                 GroqChat (Some ''g'') (format_prompt ''A6'')]\<rparr>)"
    by (simp add: startup_defs no_channel_lookups b no_channel_catalog s2 p Let_def
        del: length_Cons list.size)
  then show ?thesis by (simp add: no_channel_lookups)
qed

section \<open>Stage by stage\<close>

lemma process_video_download_fails:
  assumes "videos_list yt video_id = Inr vr" "get_items vr \<noteq> []"
    and "files w (transcription_file_path index) = None"
    and "captions_list yt video_id = Inr cr" "\<not> caption_loop (get_items cr)"
    and "files w (audio_file_path_of index) = None"
    and "ydl_download sv (watch_url video_id) (audio_file_basename index) = Inl m"
  shows "fst (process_video sv environ yt video_id index w) = Inr ()
    \<and> (\<forall>e\<in>set (events_since w (snd (process_video sv environ yt video_id index w))).
          \<not> is_transcription_call e \<and> \<not> is_formatting_call e \<and> \<not> is_file_write e)"
  using assms
  by (simp add: pipeline_defs world_simps path_simps events_since_def split: list.splits)

lemma process_video_transcription_fails:
  assumes "videos_list yt video_id = Inr vr" "get_items vr \<noteq> []"
    and "files w (transcription_file_path index) = None"
    and "captions_list yt video_id = Inr cr" "\<not> caption_loop (get_items cr)"
    and a: "files w (audio_file_path_of index) = Some f
            \<or> (files w (audio_file_path_of index) = None
                \<and> ydl_download sv (watch_url video_id) (audio_file_basename index) = Inr f)"
    and n: "\<not> (\<exists>resp t. requests_post sv transcriptions_url
                 (''Bearer '' @ fmt_opt (environ ''GROQ_API_KEY'')) f = Inr resp
               \<and> status_code resp = 200 \<and> json_text resp = Some t)"
  shows "fst (process_video sv environ yt video_id index w) = Inr ()
    \<and> (\<forall>e\<in>set (events_since w (snd (process_video sv environ yt video_id index w))).
          \<not> is_formatting_call e \<and> \<not> is_file_write e)"
proof -
  note defs = pipeline_defs world_simps path_simps events_since_def
  from a show ?thesis
  proof
    assume "files w (audio_file_path_of index) = Some f"
    then show ?thesis using assms(1-5) n
      by (simp add: defs split: list.splits sum.split option.split)
  next
    assume "files w (audio_file_path_of index) = None
       \<and> ydl_download sv (watch_url video_id) (audio_file_basename index) = Inr f"
    then show ?thesis using assms(1-5) n
      by (simp add: defs split: list.splits sum.split option.split)
  qed
qed

lemma process_video_formatting:
  assumes "videos_list yt video_id = Inr vr" "get_items vr \<noteq> []"
    and "files w (transcription_file_path index) = None"
    and "captions_list yt video_id = Inr cr" "\<not> caption_loop (get_items cr)"
    and a: "files w (audio_file_path_of index) = Some f
            \<or> (files w (audio_file_path_of index) = None
                \<and> ydl_download sv (watch_url video_id) (audio_file_basename index) = Inr f)"
    and r: "requests_post sv transcriptions_url
              (''Bearer '' @ fmt_opt (environ ''GROQ_API_KEY'')) f = Inr resp"
           "status_code resp = 200" "json_text resp = Some t"
  shows "(groq_chat sv (environ ''GROQ_API_KEY'') (format_prompt t) = Inr md \<longrightarrow>
            fst (process_video sv environ yt video_id index w) = Inr ())
    \<and> (groq_chat sv (environ ''GROQ_API_KEY'') (format_prompt t) = Inl m \<longrightarrow>
            fst (process_video sv environ yt video_id index w) = Inl (OtherError m)
            \<and> last (trace (snd (process_video sv environ yt video_id index w))) =
                GroqChat (environ ''GROQ_API_KEY'') (format_prompt t))"
proof -
  note defs = pipeline_defs world_simps path_simps events_since_def
  from a show ?thesis
  proof
    assume "files w (audio_file_path_of index) = Some f"
    then show ?thesis using assms(1-5) r by (simp add: defs split: list.splits)
  next
    assume "files w (audio_file_path_of index) = None
       \<and> ydl_download sv (watch_url video_id) (audio_file_basename index) = Inr f"
    then show ?thesis using assms(1-5) r by (simp add: defs split: list.splits)
  qed
qed

lemma process_video_raises_at_formatting:
  assumes "fst (process_video sv environ yt video_id index w) = Inl e"
    and "videos_list yt video_id \<noteq> Inl e" "captions_list yt video_id \<noteq> Inl e"
  shows "\<exists>vr cr f resp t m.
      videos_list yt video_id = Inr vr \<and> get_items vr \<noteq> []
      \<and> files w (transcription_file_path index) = None
      \<and> captions_list yt video_id = Inr cr \<and> \<not> caption_loop (get_items cr)
      \<and> (files w (audio_file_path_of index) = Some f
          \<or> (files w (audio_file_path_of index) = None
              \<and> ydl_download sv (watch_url video_id) (audio_file_basename index) = Inr f))
      \<and> requests_post sv transcriptions_url
           (''Bearer '' @ fmt_opt (environ ''GROQ_API_KEY'')) f = Inr resp
      \<and> status_code resp = 200 \<and> json_text resp = Some t
      \<and> groq_chat sv (environ ''GROQ_API_KEY'') (format_prompt t) = Inl m
      \<and> e = OtherError m"
  using assms
  by (simp add: pipeline_defs world_simps path_simps
      split: sum.splits list.splits option.splits write_outcome.splits bool.splits if_splits)

text \<open>
  Claim C2, as the code has it. A video without details, a failed download, a failed
  transcription and a failed write are normal returns of \<open>process_video\<close>, each at its own
  stage and with no later stage run. A failed formatting call is not: its exception leaves
  \<open>process_video\<close> and the loop, and the rest of the catalog is not attempted; and apart from
  an error of the video service this is the only exception that leaves \<open>process_video\<close>.
  After a prefix of the catalog that returned normally the next video is attempted. What
  \<open>process_video\<close> does for a video (its result, the calls and lines it adds, its two files)
  is the same after any videos with other indices as on the disk before them.
\<close>

theorem failure_isolation:
  "(videos_list yt vk = Inr vr \<and> get_items vr = [] \<longrightarrow>
      fst (process_video sv environ yt vk k w) = Inr ())
   \<and> (videos_list yt vk = Inr vr \<and> get_items vr \<noteq> []
       \<and> files w (transcription_file_path k) = None
       \<and> captions_list yt vk = Inr cr \<and> \<not> caption_loop (get_items cr) \<longrightarrow>
        (files w (audio_file_path_of k) = None
         \<and> ydl_download sv (watch_url vk) (audio_file_basename k) = Inl m1 \<longrightarrow>
           fst (process_video sv environ yt vk k w) = Inr ()
           \<and> (\<forall>e\<in>set (events_since w (snd (process_video sv environ yt vk k w))).
                 \<not> is_transcription_call e \<and> \<not> is_formatting_call e \<and> \<not> is_file_write e))
        \<and> (files w (audio_file_path_of k) = Some f
            \<or> (files w (audio_file_path_of k) = None
                \<and> ydl_download sv (watch_url vk) (audio_file_basename k) = Inr f) \<longrightarrow>
             (\<not> (\<exists>resp t. requests_post sv transcriptions_url
                     (''Bearer '' @ fmt_opt (environ ''GROQ_API_KEY'')) f = Inr resp
                   \<and> status_code resp = 200 \<and> json_text resp = Some t) \<longrightarrow>
                fst (process_video sv environ yt vk k w) = Inr ()
                \<and> (\<forall>e\<in>set (events_since w (snd (process_video sv environ yt vk k w))).
                      \<not> is_formatting_call e \<and> \<not> is_file_write e))
             \<and> (requests_post sv transcriptions_url
                   (''Bearer '' @ fmt_opt (environ ''GROQ_API_KEY'')) f = Inr resp
                 \<and> status_code resp = 200 \<and> json_text resp = Some t \<longrightarrow>
                  (groq_chat sv (environ ''GROQ_API_KEY'') (format_prompt t) = Inr md \<longrightarrow>
                     fst (process_video sv environ yt vk k w) = Inr ())
                  \<and> (groq_chat sv (environ ''GROQ_API_KEY'') (format_prompt t) = Inl m2 \<longrightarrow>
                       fst (process_video sv environ yt vk k w) = Inl (OtherError m2)
                       \<and> last (trace (snd (process_video sv environ yt vk k w))) =
                           GroqChat (environ ''GROQ_API_KEY'') (format_prompt t)
                       \<and> process_all sv environ yt ((k, vk) # rest) w =
                           (Inl (OtherError m2), snd (process_video sv environ yt vk k w))))))
   \<and> (fst (process_video sv environ yt vk k w) = Inl e
       \<and> videos_list yt vk \<noteq> Inl e \<and> captions_list yt vk \<noteq> Inl e \<longrightarrow>
        (\<exists>vr cr f resp t m.
            videos_list yt vk = Inr vr \<and> get_items vr \<noteq> []
            \<and> files w (transcription_file_path k) = None
            \<and> captions_list yt vk = Inr cr \<and> \<not> caption_loop (get_items cr)
            \<and> (files w (audio_file_path_of k) = Some f
                \<or> (files w (audio_file_path_of k) = None
                    \<and> ydl_download sv (watch_url vk) (audio_file_basename k) = Inr f))
            \<and> requests_post sv transcriptions_url
                 (''Bearer '' @ fmt_opt (environ ''GROQ_API_KEY'')) f = Inr resp
            \<and> status_code resp = 200 \<and> json_text resp = Some t
            \<and> groq_chat sv (environ ''GROQ_API_KEY'') (format_prompt t) = Inl m
            \<and> e = OtherError m))
   \<and> (fst (process_all sv environ yt pre w) = Inr () \<longrightarrow>
        process_all sv environ yt (pre @ (j, vj) # post) w =
          (case process_video sv environ yt vj j (snd (process_all sv environ yt pre w)) of
             (Inl e', w') \<Rightarrow> (Inl e', w')
           | (Inr u, w') \<Rightarrow> process_all sv environ yt post w'))
   \<and> (j \<notin> fst ` set pre \<longrightarrow>
        fst (process_video sv environ yt vj j (snd (process_all sv environ yt pre w))) =
          fst (process_video sv environ yt vj j w)
        \<and> events_since (snd (process_all sv environ yt pre w))
            (snd (process_video sv environ yt vj j (snd (process_all sv environ yt pre w)))) =
          events_since w (snd (process_video sv environ yt vj j w))
        \<and> files (snd (process_video sv environ yt vj j (snd (process_all sv environ yt pre w))))
            (audio_file_path_of j) =
          files (snd (process_video sv environ yt vj j w)) (audio_file_path_of j)
        \<and> files (snd (process_video sv environ yt vj j (snd (process_all sv environ yt pre w))))
            (transcription_file_path j) =
          files (snd (process_video sv environ yt vj j w)) (transcription_file_path j))"
  (is "?N1 \<and> ?N2 \<and> ?R \<and> ?C \<and> ?I")
proof -
  have n1: ?N1 by (simp add: process_video_not_found)
  have n2: ?N2
  proof (intro impI conjI)
    assume h: "videos_list yt vk = Inr vr \<and> get_items vr \<noteq> []
       \<and> files w (transcription_file_path k) = None
       \<and> captions_list yt vk = Inr cr \<and> \<not> caption_loop (get_items cr)"
    {
      assume d: "files w (audio_file_path_of k) = None
         \<and> ydl_download sv (watch_url vk) (audio_file_basename k) = Inl m1"
      have x: "fst (process_video sv environ yt vk k w) = Inr ()
           \<and> (\<forall>e\<in>set (events_since w (snd (process_video sv environ yt vk k w))).
                 \<not> is_transcription_call e \<and> \<not> is_formatting_call e \<and> \<not> is_file_write e)"
        using h d by (intro process_video_download_fails [of yt vk vr w k cr sv m1]) simp_all
      show "fst (process_video sv environ yt vk k w) = Inr ()" using x by simp
      show "\<forall>e\<in>set (events_since w (snd (process_video sv environ yt vk k w))).
                 \<not> is_transcription_call e \<and> \<not> is_formatting_call e \<and> \<not> is_file_write e"
        using x by simp
    }
    assume a: "files w (audio_file_path_of k) = Some f
            \<or> (files w (audio_file_path_of k) = None
                \<and> ydl_download sv (watch_url vk) (audio_file_basename k) = Inr f)"
    {
      assume n: "\<not> (\<exists>resp t. requests_post sv transcriptions_url
                     (''Bearer '' @ fmt_opt (environ ''GROQ_API_KEY'')) f = Inr resp
                   \<and> status_code resp = 200 \<and> json_text resp = Some t)"
      have x: "fst (process_video sv environ yt vk k w) = Inr ()
                \<and> (\<forall>e\<in>set (events_since w (snd (process_video sv environ yt vk k w))).
                      \<not> is_formatting_call e \<and> \<not> is_file_write e)"
        using h a n by (intro process_video_transcription_fails [of yt vk vr w k cr f sv environ])
          simp_all
      show "fst (process_video sv environ yt vk k w) = Inr ()" using x by simp
      show "\<forall>e\<in>set (events_since w (snd (process_video sv environ yt vk k w))).
                      \<not> is_formatting_call e \<and> \<not> is_file_write e" using x by simp
    }
    assume r: "requests_post sv transcriptions_url
                   (''Bearer '' @ fmt_opt (environ ''GROQ_API_KEY'')) f = Inr resp
                 \<and> status_code resp = 200 \<and> json_text resp = Some t"
    have p: "\<And>md m. (groq_chat sv (environ ''GROQ_API_KEY'') (format_prompt t) = Inr md \<longrightarrow>
            fst (process_video sv environ yt vk k w) = Inr ())
      \<and> (groq_chat sv (environ ''GROQ_API_KEY'') (format_prompt t) = Inl m \<longrightarrow>
            fst (process_video sv environ yt vk k w) = Inl (OtherError m)
            \<and> last (trace (snd (process_video sv environ yt vk k w))) =
                GroqChat (environ ''GROQ_API_KEY'') (format_prompt t))"
      using h a r by (intro process_video_formatting [of yt vk vr w k cr f sv environ resp t])
        simp_all
    {
      assume "groq_chat sv (environ ''GROQ_API_KEY'') (format_prompt t) = Inr md"
      then show "fst (process_video sv environ yt vk k w) = Inr ()" using p by blast
    }
    assume g: "groq_chat sv (environ ''GROQ_API_KEY'') (format_prompt t) = Inl m2"
    show q: "fst (process_video sv environ yt vk k w) = Inl (OtherError m2)" using p g by blast
    show "last (trace (snd (process_video sv environ yt vk k w))) =
                GroqChat (environ ''GROQ_API_KEY'') (format_prompt t)" using p g by blast
    show "process_all sv environ yt ((k, vk) # rest) w =
        (Inl (OtherError m2), snd (process_video sv environ yt vk k w))"
      using q by (rule process_all_abort)
  qed
  have r: ?R
    using process_video_raises_at_formatting [of sv environ yt vk k w e] by blast
  have c: ?C
    by (cases "process_all sv environ yt pre w") (simp add: process_all_append)
  have i: ?I
  proof
    assume "j \<notin> fst ` set pre"
    then have "files (snd (process_all sv environ yt pre w)) (audio_file_path_of j) =
           files w (audio_file_path_of j)
      \<and> files (snd (process_all sv environ yt pre w)) (transcription_file_path j) =
           files w (transcription_file_path j)"
      by (rule process_all_keeps_other_paths)
    then show "fst (process_video sv environ yt vj j (snd (process_all sv environ yt pre w))) =
          fst (process_video sv environ yt vj j w)
        \<and> events_since (snd (process_all sv environ yt pre w))
            (snd (process_video sv environ yt vj j (snd (process_all sv environ yt pre w)))) =
          events_since w (snd (process_video sv environ yt vj j w))
        \<and> files (snd (process_video sv environ yt vj j (snd (process_all sv environ yt pre w))))
            (audio_file_path_of j) =
          files (snd (process_video sv environ yt vj j w)) (audio_file_path_of j)
        \<and> files (snd (process_video sv environ yt vj j (snd (process_all sv environ yt pre w))))
            (transcription_file_path j) =
          files (snd (process_video sv environ yt vj j w)) (transcription_file_path j)"
      by (intro process_video_local) simp_all
  qed
  show ?thesis using n1 n2 r c i by (intro conjI)
qed

lemma process_video_sends_request:
  assumes v: "videos_list yt video_id = Inr vr" "get_items vr = item # others"
    and t: "files w (transcription_file_path index) = None"
    and c: "captions_list yt video_id = Inr cr" "\<not> caption_loop (get_items cr)"
    and a: "files w (audio_file_path_of index) = Some f
            \<or> (files w (audio_file_path_of index) = None
                \<and> ydl_download sv (watch_url video_id) (audio_file_basename index) = Inr f)"
  shows "take 5 (events_since w (snd (process_video sv environ yt video_id index w))) =
      [VideosList video_id, Print (''Processing video: '' @ title item), CaptionsList video_id,
       (if files w (audio_file_path_of index) = None
        then YdlDownload (watch_url video_id) (audio_file_basename index)
        else Print (''Audio file '' @ audio_file_path_of index
                      @ '' already exists. Skipping download.'')),
       RequestsPost transcriptions_url (''Bearer '' @ fmt_opt (environ ''GROQ_API_KEY'')) f]"
proof -
  note defs = pipeline_defs world_simps path_simps events_since_def
  from a show ?thesis
  proof
    assume "files w (audio_file_path_of index) = Some f"
    then show ?thesis using v t c
      by (simp add: defs split: sum.split option.split write_outcome.split)
  next
    assume "files w (audio_file_path_of index) = None
       \<and> ydl_download sv (watch_url video_id) (audio_file_basename index) = Inr f"
    then show ?thesis using v t c
      by (simp add: defs split: sum.split option.split write_outcome.split)
  qed
qed

text \<open>
  Claim C10. Every path that \<open>download_audio\<close> returns is the canonical one of the index, its
  suffix is \<^verbatim>\<open>.mp3\<close>, which is in the allow-list (the comparison is made in lower case), so
  \<open>transcribe_audio\<close> never raises the \<open>ValueError\<close> on it. And in \<open>process_video\<close>, for every
  video that gets as far as the transcription (details found, no output file, no manual
  caption, audio cached or downloaded), the request to the transcription service is sent
  with the bytes of that audio file: the check of the extension has let the path through.
\<close>

theorem acquired_audio_reaches_service:
  "(download_audio sv video_id index w = (Some p, w') \<longrightarrow>
      p = audio_file_path_of index
      \<and> path_suffix p = ''.mp3''
      \<and> lower (path_suffix p) \<in> audio_file_types
      \<and> (\<forall>environ w'' m. fst (transcribe_audio sv environ p w'') \<noteq> Inl (ValueError m))
      \<and> (\<forall>q environ w'' m. lower (path_suffix q) = ''.mp3'' \<longrightarrow>
            fst (transcribe_audio sv environ q w'') \<noteq> Inl (ValueError m)))
   \<and> (videos_list yt video_id = Inr vr \<and> get_items vr = item # others
       \<and> files w0 (transcription_file_path index) = None
       \<and> captions_list yt video_id = Inr cr \<and> \<not> caption_loop (get_items cr)
       \<and> (files w0 (audio_file_path_of index) = Some f
            \<or> (files w0 (audio_file_path_of index) = None
                \<and> ydl_download sv (watch_url video_id) (audio_file_basename index) = Inr f))
       \<longrightarrow>
        take 5 (events_since w0 (snd (process_video sv environ0 yt video_id index w0))) =
          [VideosList video_id, Print (''Processing video: '' @ title item),
           CaptionsList video_id,
           (if files w0 (audio_file_path_of index) = None
            then YdlDownload (watch_url video_id) (audio_file_basename index)
            else Print (''Audio file '' @ audio_file_path_of index
                          @ '' already exists. Skipping download.'')),
           RequestsPost transcriptions_url (''Bearer '' @ fmt_opt (environ0 ''GROQ_API_KEY'')) f])"
proof (intro conjI impI)
  assume d: "download_audio sv video_id index w = (Some p, w')"
  show p: "p = audio_file_path_of index" using d by (rule download_audio_path)
  show s: "path_suffix p = ''.mp3''" by (simp only: p path_suffix_audio)
  have m: "''.mp3'' \<in> audio_file_types" by (simp add: audio_file_types_eq)
  have l: "lower ''.mp3'' = ''.mp3''" by (simp add: lower_def lower_char_def)
  show k: "lower (path_suffix p) \<in> audio_file_types" by (simp only: s l m)
  show "\<forall>environ w'' m. fst (transcribe_audio sv environ p w'') \<noteq> Inl (ValueError m)"
    using k by (simp add: transcribe_audio_no_value_error)
  show "\<forall>q environ w'' m. lower (path_suffix q) = ''.mp3'' \<longrightarrow>
            fst (transcribe_audio sv environ q w'') \<noteq> Inl (ValueError m)"
    using m by (simp add: transcribe_audio_no_value_error)
next
  assume "videos_list yt video_id = Inr vr \<and> get_items vr = item # others
       \<and> files w0 (transcription_file_path index) = None
       \<and> captions_list yt video_id = Inr cr \<and> \<not> caption_loop (get_items cr)
       \<and> (files w0 (audio_file_path_of index) = Some f
            \<or> (files w0 (audio_file_path_of index) = None
                \<and> ydl_download sv (watch_url video_id) (audio_file_basename index) = Inr f))"
  then show "take 5 (events_since w0 (snd (process_video sv environ0 yt video_id index w0))) =
          [VideosList video_id, Print (''Processing video: '' @ title item),
           CaptionsList video_id,
           (if files w0 (audio_file_path_of index) = None
            then YdlDownload (watch_url video_id) (audio_file_basename index)
            else Print (''Audio file '' @ audio_file_path_of index
                          @ '' already exists. Skipping download.'')),
           RequestsPost transcriptions_url (''Bearer '' @ fmt_opt (environ0 ''GROQ_API_KEY'')) f]"
    by (intro process_video_sends_request [of yt video_id vr item others w0 index cr f sv]) simp_all
qed

lemma py_enumerate_zip:
  "py_enumerate 1 video_ids = zip (map int [1..<Suc (length video_ids)]) video_ids"
proof -
  have f: "map fst (py_enumerate 1 video_ids) = map int [1..<Suc (length video_ids)]"
  proof -
    have "map (\<lambda>k. 1 + int k) [0..<length video_ids] = map int (map Suc [0..<length video_ids])"
      by simp
    also have "\<dots> = map int [1..<Suc (length video_ids)]"
      by (simp only: map_Suc_upt One_nat_def)
    finally show ?thesis by (simp only: py_enumerate_fst)
  qed
  have "py_enumerate 1 video_ids =
      zip (map fst (py_enumerate 1 video_ids)) (map snd (py_enumerate 1 video_ids))"
    by (simp only: zip_map_fst_snd)
  then show ?thesis by (simp only: f py_enumerate_snd)
qed

lemma py_enumerate_length: "length (py_enumerate n xs) = length xs"
  by (induction xs arbitrary: n) simp_all

lemma py_enumerate_nth: "k < length xs \<Longrightarrow> py_enumerate n xs ! k = (n + int k, xs ! k)"
proof (induction xs arbitrary: n k)
  case Nil
  then show ?case by simp
next
  case (Cons x xs)
  show ?case
  proof (cases k)
    case 0
    then show ?thesis by simp
  next
    case (Suc k')
    with Cons.prems have "k' < length xs" by simp
    then have "py_enumerate (n + 1) xs ! k' = (n + 1 + int k', xs ! k')" by (rule Cons.IH)
    with Suc show ?thesis by (simp add: add.assoc add.commute)
  qed
qed

text \<open>
  Claim C3, as the code has it. The loop of \<open>main\<close> runs over the catalog paired with the
  indices \<open>1, 2, ..., N\<close> in catalog order, no index twice. The video at position \<open>n\<close> (from
  0) is processed under the index \<open>n + 1\<close> exactly when the videos before it returned
  normally; once a call raises, the loop ends there and the later indices are never used.
\<close>

theorem indices_of_a_run:
  "py_enumerate 1 video_ids = zip (map int [1..<Suc (length video_ids)]) video_ids
   \<and> distinct (map fst (py_enumerate 1 video_ids))
   \<and> set (map fst (py_enumerate 1 video_ids)) = {1..int (length video_ids)}
   \<and> (n < length video_ids
       \<and> fst (process_all sv environ yt (take n (py_enumerate 1 video_ids)) w) = Inr () \<longrightarrow>
        process_all sv environ yt (py_enumerate 1 video_ids) w =
          (case process_video sv environ yt (video_ids ! n) (int n + 1)
                  (snd (process_all sv environ yt (take n (py_enumerate 1 video_ids)) w)) of
             (Inl e', w') \<Rightarrow> (Inl e', w')
           | (Inr u, w') \<Rightarrow>
               process_all sv environ yt (drop (Suc n) (py_enumerate 1 video_ids)) w'))
   \<and> (fst (process_all sv environ yt (take n (py_enumerate 1 video_ids)) w) = Inl e \<longrightarrow>
        process_all sv environ yt (py_enumerate 1 video_ids) w =
          process_all sv environ yt (take n (py_enumerate 1 video_ids)) w)
   \<and> (build sv (environ ''YT_API_KEY'') = Inr yt
       \<and> get_video_ids yt (environ ''CHANNEL_ID'') (emit (Build (environ ''YT_API_KEY'')) w0)
            = (Inr video_ids, w2) \<longrightarrow>
        main sv environ w0 =
          (case process_all sv environ yt (py_enumerate 1 video_ids)
                  (print (''Found '' @ str_int (int (length video_ids)) @ '' videos.'') w2) of
             (Inl e', w4) \<Rightarrow> (Uncaught e', w4)
           | (Inr u, w4) \<Rightarrow> (Exit 0, w4)))"
  (is "?Z \<and> ?D \<and> ?S \<and> ?P \<and> ?A \<and> ?M")
proof -
  have z: ?Z by (rule py_enumerate_zip)
  have f: "map fst (py_enumerate 1 video_ids) = map int [1..<Suc (length video_ids)]"
    by (subst z) simp
  have d: ?D by (simp only: f) (simp add: distinct_map inj_on_def)
  have "set (map int [1..<Suc (length video_ids)]) = int ` {1..length video_ids}"
    by (simp only: set_map set_upt atLeastLessThanSuc_atLeastAtMost)
  also have "\<dots> = {1..int (length video_ids)}"
    using image_int_atLeastAtMost [of 1 "length video_ids"] by simp
  finally have s: ?S by (simp only: f)
  have p: ?P
  proof
    assume h: "n < length video_ids
       \<and> fst (process_all sv environ yt (take n (py_enumerate 1 video_ids)) w) = Inr ()"
    let ?xs = "py_enumerate 1 video_ids"
    have n: "n < length ?xs" using h by (simp add: py_enumerate_length)
    have "?xs = take n ?xs @ ?xs ! n # drop (Suc n) ?xs" using n by (rule id_take_nth_drop)
    also have "?xs ! n = (int n + 1, video_ids ! n)"
      using h by (simp add: py_enumerate_nth)
    finally have e: "?xs = take n ?xs @ (int n + 1, video_ids ! n) # drop (Suc n) ?xs" .
    have "process_all sv environ yt (take n ?xs @ (int n + 1, video_ids ! n) # drop (Suc n) ?xs) w =
          (case process_video sv environ yt (video_ids ! n) (int n + 1)
                  (snd (process_all sv environ yt (take n ?xs) w)) of
             (Inl e', w') \<Rightarrow> (Inl e', w')
           | (Inr u, w') \<Rightarrow> process_all sv environ yt (drop (Suc n) ?xs) w')"
      using h by (cases "process_all sv environ yt (take n ?xs) w") (simp add: process_all_append)
    then show "process_all sv environ yt ?xs w =
          (case process_video sv environ yt (video_ids ! n) (int n + 1)
                  (snd (process_all sv environ yt (take n ?xs) w)) of
             (Inl e', w') \<Rightarrow> (Inl e', w')
           | (Inr u, w') \<Rightarrow> process_all sv environ yt (drop (Suc n) ?xs) w')"
      using e by simp
  qed
  have a: ?A
  proof
    assume h: "fst (process_all sv environ yt (take n (py_enumerate 1 video_ids)) w) = Inl e"
    let ?xs = "py_enumerate 1 video_ids"
    have "process_all sv environ yt (take n ?xs @ drop n ?xs) w =
        (case process_all sv environ yt (take n ?xs) w of
           (Inl e', w') \<Rightarrow> (Inl e', w')
         | (Inr u, w') \<Rightarrow> process_all sv environ yt (drop n ?xs) w')"
      by (rule process_all_append)
    then have "process_all sv environ yt ?xs w =
        (case process_all sv environ yt (take n ?xs) w of
           (Inl e', w') \<Rightarrow> (Inl e', w')
         | (Inr u, w') \<Rightarrow> process_all sv environ yt (drop n ?xs) w')"
      by (simp only: append_take_drop_id)
    then show "process_all sv environ yt ?xs w = process_all sv environ yt (take n ?xs) w"
      using h by (cases "process_all sv environ yt (take n ?xs) w") simp
  qed
  have m: ?M by (simp add: main_def Let_def split: prod.split sum.split exn.split)
  show ?thesis using z d s p a m by (intro conjI)
qed

lemma demo_catalog:
  "build demo_services (demo_environ ''YT_API_KEY'') = Inr demo_youtube
   \<and> get_video_ids demo_youtube (demo_environ ''CHANNEL_ID'')
        (emit (Build (demo_environ ''YT_API_KEY'')) empty_world) =
       (Inr [''nofmt'', ''ok''],
        emit (SearchList (Some ''c'') 0) (emit (Build (Some ''y'')) empty_world))"
  by (simp add: demo_services_def demo_youtube_def demo_environ_def get_video_ids_def
      get_items_def Let_def)

lemma demo_nofmt_in_main:
  "process_video demo_services demo_environ demo_youtube ''nofmt'' 1
      (print ''Found 2 videos.''
        (emit (SearchList (Some ''c'') 0) (emit (Build (Some ''y'')) empty_world))) =
     (Inl (OtherError ''E5''),
      \<lparr>files = [audio_file_path_of 1 \<mapsto> ''A6''],
       trace = [Build (Some ''y''), SearchList (Some ''c'') 0, Print ''Found 2 videos.'',
                VideosList ''nofmt'', Print ''Processing video: T'', CaptionsList ''nofmt'',
                YdlDownload ''https://www.youtube.com/watch?v=nofmt'' (audio_file_basename 1),
                RequestsPost transcriptions_url ''Bearer g'' ''A6'',
                GroqChat (Some ''g'') (format_prompt ''A6'')]\<rparr>)"
  by (simp add: run_simps demo_defs emit_def print_def)

text \<open>
  Claim C3 as stated fails for a run that an exception ends: the catalog has two entries,
  the formatting of the first raises, and the run ends having used index 1 only.
\<close>

theorem aborted_run_skips_index:
  "py_enumerate 1 [''nofmt'', ''ok''] = [(1, ''nofmt''), (2, ''ok'')]
   \<and> main demo_services demo_environ empty_world =
       (Uncaught (OtherError ''E5''),
        \<lparr>files = [''audio_files/1.mp3'' \<mapsto> ''A6''],
         trace = [Build (Some ''y''), SearchList (Some ''c'') 0, Print ''Found 2 videos.'',
                  VideosList ''nofmt'', Print ''Processing video: T'', CaptionsList ''nofmt'',
                  YdlDownload ''https://www.youtube.com/watch?v=nofmt'' ''audio_files/1'',
                  RequestsPost transcriptions_url ''Bearer g'' ''A6'',
                  GroqChat (Some ''g'') (format_prompt ''A6'')]\<rparr>)"
proof -
  have k: "demo_environ ''YT_API_KEY'' = Some ''y''" "demo_environ ''CHANNEL_ID'' = Some ''c''"
    by (simp_all add: demo_environ_def)
  have s2: "str_int (int (length [''nofmt'', ''ok''])) = ''2''" by (simp add: str_int_2)
  have a1: "audio_file_path_of 1 = ''audio_files/1.mp3''"
    by (simp add: audio_file_path_of_eq str_int_1)
  have "main demo_services demo_environ empty_world =
       (Uncaught (OtherError ''E5''),
        \<lparr>files = [audio_file_path_of 1 \<mapsto> ''A6''],
         trace = [Build (Some ''y''), SearchList (Some ''c'') 0, Print ''Found 2 videos.'',
                  VideosList ''nofmt'', Print ''Processing video: T'', CaptionsList ''nofmt'',
                  YdlDownload ''https://www.youtube.com/watch?v=nofmt'' (audio_file_basename 1),
                  RequestsPost transcriptions_url ''Bearer g'' ''A6'',
                  GroqChat (Some ''g'') (format_prompt ''A6'')]\<rparr>)"
    using demo_catalog
    by (simp add: main_def Let_def k s2 demo_nofmt_in_main del: length_Cons list.size)
  then show ?thesis by (simp add: a1 afb_1)
qed

lemma demo_found:
  "v \<noteq> ''bad'' \<Longrightarrow> v \<noteq> ''gone'' \<Longrightarrow> videos_list demo_youtube v = Inr (Some [\<lparr>title = ''T''\<rparr>])"
  by (simp add: demo_youtube_def)

lemma demo_asr_only:
  "v \<noteq> ''capbad'' \<Longrightarrow> v \<noteq> ''manual'' \<Longrightarrow>
     captions_list demo_youtube v = Inr (Some [\<lparr>trackKind = ''ASR''\<rparr>])"
  by (simp add: demo_youtube_def)

lemma demo_items:
  "get_items (Some [\<lparr>title = ''T''\<rparr>]) = [\<lparr>title = ''T''\<rparr>]"
  "\<not> caption_loop (get_items (Some [\<lparr>trackKind = ''ASR''\<rparr>]))"
  "get_items (Some ([] :: video_item list)) = []"
  by (simp_all add: get_items_def)

lemma empty_world_files: "files empty_world p = None"
  by (simp add: empty_world_def)

lemma demo_bearer: "''Bearer '' @ fmt_opt (demo_environ ''GROQ_API_KEY'') = ''Bearer g''"
  by (simp add: demo_environ_def fmt_opt_def)

theorem acquired_audio_reaches_service_witness:
  "download_audio demo_services ''ok'' 1 done_world =
      (Some ''audio_files/1.mp3'',
       print ''Audio file audio_files/1.mp3 already exists. Skipping download.'' done_world)
   \<and> path_suffix ''audio_files/1.mp3'' = ''.mp3''
   \<and> videos_list demo_youtube ''ok'' = Inr (Some [\<lparr>title = ''T''\<rparr>])
   \<and> files empty_world (transcription_file_path 1) = None
   \<and> captions_list demo_youtube ''ok'' = Inr (Some [\<lparr>trackKind = ''ASR''\<rparr>])
   \<and> files empty_world (audio_file_path_of 1) = None
   \<and> ydl_download demo_services (watch_url ''ok'') (audio_file_basename 1) = Inr ''A7''
   \<and> take 5 (events_since empty_world
        (snd (process_video demo_services demo_environ demo_youtube ''ok'' 1 empty_world))) =
       [VideosList ''ok'', Print ''Processing video: T'', CaptionsList ''ok'',
        YdlDownload ''https://www.youtube.com/watch?v=ok'' ''audio_files/1'',
        RequestsPost transcriptions_url ''Bearer g'' ''A7'']"
proof -
  have p: "audio_file_path_of 1 = ''audio_files/1.mp3''"
    by (simp add: audio_file_path_of_eq str_int_1)
  have d: "download_audio demo_services ''ok'' 1 done_world =
      (Some ''audio_files/1.mp3'',
       print ''Audio file audio_files/1.mp3 already exists. Skipping download.'' done_world)"
    by (simp add: download_audio_def Let_def p os_path_exists_def done_world_def)
  have v: "videos_list demo_youtube ''ok'' = Inr (Some [\<lparr>title = ''T''\<rparr>])"
    by (simp add: demo_found)
  have c: "captions_list demo_youtube ''ok'' = Inr (Some [\<lparr>trackKind = ''ASR''\<rparr>])"
    by (simp add: demo_asr_only)
  have y: "ydl_download demo_services (watch_url ''ok'') (audio_file_basename 1) = Inr ''A7''"
    by (simp add: demo_services_def watch_url_def)
  note t = acquired_audio_reaches_service [where sv = demo_services and video_id = "''ok''"
      and index = 1 and w = done_world and p = "''audio_files/1.mp3''"
      and w' = "print ''Audio file audio_files/1.mp3 already exists. Skipping download.'' done_world"
      and yt = demo_youtube and vr = "Some [\<lparr>title = ''T''\<rparr>]" and item = "\<lparr>title = ''T''\<rparr>"
      and others = "[]" and ?w0.0 = empty_world and cr = "Some [\<lparr>trackKind = ''ASR''\<rparr>]"
      and f = "''A7''" and ?environ0.0 = demo_environ]
  have s: "path_suffix ''audio_files/1.mp3'' = ''.mp3''" using t d by blast
  have e0: "take 5 (events_since empty_world
        (snd (process_video demo_services demo_environ demo_youtube ''ok'' 1 empty_world))) =
       [VideosList ''ok'', Print (''Processing video: '' @ title \<lparr>title = ''T''\<rparr>),
        CaptionsList ''ok'',
        (if files empty_world (audio_file_path_of 1) = None
         then YdlDownload (watch_url ''ok'') (audio_file_basename 1)
         else Print (''Audio file '' @ audio_file_path_of 1
                       @ '' already exists. Skipping download.'')),
        RequestsPost transcriptions_url (''Bearer '' @ fmt_opt (demo_environ ''GROQ_API_KEY''))
          ''A7'']"
    using t v c y demo_items empty_world_files by simp
  have e: "take 5 (events_since empty_world
        (snd (process_video demo_services demo_environ demo_youtube ''ok'' 1 empty_world))) =
       [VideosList ''ok'', Print ''Processing video: T'', CaptionsList ''ok'',
        YdlDownload ''https://www.youtube.com/watch?v=ok'' ''audio_files/1'',
        RequestsPost transcriptions_url ''Bearer g'' ''A7'']"
  proof -
    have x: "title \<lparr>title = ''T''\<rparr> = ''T''" "''Processing video: '' @ ''T'' = ''Processing video: T''"
      "watch_url ''ok'' = ''https://www.youtube.com/watch?v=ok''"
      by (simp_all add: watch_url_def)
    show ?thesis using e0
      by (simp only: x afb_1 demo_bearer empty_world_files if_True simp_thms)
  qed
  show ?thesis using d s v c y e empty_world_files by simp
qed

theorem indices_of_a_run_witness:
  "(1::nat) < length [''nodl'', ''ok'']
   \<and> fst (process_all demo_services demo_environ demo_youtube
        (take 1 (py_enumerate 1 [''nodl'', ''ok''])) empty_world) = Inr ()
   \<and> process_all demo_services demo_environ demo_youtube (py_enumerate 1 [''nodl'', ''ok''])
        empty_world =
       (case process_video demo_services demo_environ demo_youtube ''ok'' 2
               (snd (process_all demo_services demo_environ demo_youtube [(1, ''nodl'')]
                       empty_world)) of
          (Inl e', w') \<Rightarrow> (Inl e', w')
        | (Inr u, w') \<Rightarrow> process_all demo_services demo_environ demo_youtube [] w')
   \<and> fst (process_all demo_services demo_environ demo_youtube
        (take 1 (py_enumerate 1 [''nofmt'', ''ok''])) empty_world) = Inl (OtherError ''E5'')
   \<and> process_all demo_services demo_environ demo_youtube (py_enumerate 1 [''nofmt'', ''ok''])
        empty_world =
       process_all demo_services demo_environ demo_youtube [(1, ''nofmt'')] empty_world
   \<and> main demo_services demo_environ empty_world =
       (case process_all demo_services demo_environ demo_youtube
               (py_enumerate 1 [''nofmt'', ''ok''])
               (print ''Found 2 videos.''
                 (emit (SearchList (Some ''c'') 0) (emit (Build (Some ''y'')) empty_world))) of
          (Inl e', w4) \<Rightarrow> (Uncaught e', w4)
        | (Inr u, w4) \<Rightarrow> (Exit 0, w4))"
proof -
  have a: "fst (process_all demo_services demo_environ demo_youtube
        (take 1 (py_enumerate 1 [''nodl'', ''ok''])) empty_world) = Inr ()"
    by (simp add: run_simps demo_defs emit_def print_def)
  have b: "fst (process_all demo_services demo_environ demo_youtube
        (take 1 (py_enumerate 1 [''nofmt'', ''ok''])) empty_world) = Inl (OtherError ''E5'')"
    by (simp add: demo_nofmt)
  have s2: "str_int (int (length [''nofmt'', ''ok''])) = ''2''" by (simp add: str_int_2)
  have n1: "take 1 (py_enumerate 1 [''nodl'', ''ok'']) = [(1, ''nodl'')]"
    "[''nodl'', ''ok''] ! 1 = ''ok''" "int 1 + 1 = 2"
    "drop (Suc 1) (py_enumerate 1 [''nodl'', ''ok'']) = []"
    by simp_all
  have l: "(1::nat) < length [''nodl'', ''ok'']" by simp
  have "process_all demo_services demo_environ demo_youtube (py_enumerate 1 [''nodl'', ''ok''])
        empty_world =
       (case process_video demo_services demo_environ demo_youtube ([''nodl'', ''ok''] ! 1)
               (int 1 + 1)
               (snd (process_all demo_services demo_environ demo_youtube
                       (take 1 (py_enumerate 1 [''nodl'', ''ok''])) empty_world)) of
          (Inl e', w') \<Rightarrow> (Inl e', w')
        | (Inr u, w') \<Rightarrow>
            process_all demo_services demo_environ demo_youtube
              (drop (Suc 1) (py_enumerate 1 [''nodl'', ''ok''])) w')"
    using l a indices_of_a_run [where video_ids = "[''nodl'', ''ok'']" and n = 1
        and sv = demo_services and environ = demo_environ and yt = demo_youtube
        and w = empty_world]
    by blast
  then have r1: "process_all demo_services demo_environ demo_youtube
        (py_enumerate 1 [''nodl'', ''ok'']) empty_world =
       (case process_video demo_services demo_environ demo_youtube ''ok'' 2
               (snd (process_all demo_services demo_environ demo_youtube [(1, ''nodl'')]
                       empty_world)) of
          (Inl e', w') \<Rightarrow> (Inl e', w')
        | (Inr u, w') \<Rightarrow> process_all demo_services demo_environ demo_youtube [] w')"
    by (simp only: n1)
  have n2: "take 1 (py_enumerate 1 [''nofmt'', ''ok'']) = [(1, ''nofmt'')]" by simp
  have "process_all demo_services demo_environ demo_youtube (py_enumerate 1 [''nofmt'', ''ok''])
        empty_world =
       process_all demo_services demo_environ demo_youtube
         (take 1 (py_enumerate 1 [''nofmt'', ''ok''])) empty_world"
    using b indices_of_a_run [where video_ids = "[''nofmt'', ''ok'']" and n = 1
        and sv = demo_services and environ = demo_environ and yt = demo_youtube
        and w = empty_world and e = "OtherError ''E5''"]
    by blast
  then have r2: "process_all demo_services demo_environ demo_youtube
        (py_enumerate 1 [''nofmt'', ''ok'']) empty_world =
       process_all demo_services demo_environ demo_youtube [(1, ''nofmt'')] empty_world"
    by (simp only: n2)
  have r3: "main demo_services demo_environ empty_world =
       (case process_all demo_services demo_environ demo_youtube
               (py_enumerate 1 [''nofmt'', ''ok''])
               (print (''Found '' @ str_int (int (length [''nofmt'', ''ok''])) @ '' videos.'')
                 (emit (SearchList (Some ''c'') 0) (emit (Build (Some ''y'')) empty_world))) of
          (Inl e', w4) \<Rightarrow> (Uncaught e', w4)
        | (Inr u, w4) \<Rightarrow> (Exit 0, w4))"
    using demo_catalog indices_of_a_run [where video_ids = "[''nofmt'', ''ok'']"
        and sv = demo_services and environ = demo_environ and yt = demo_youtube
        and ?w0.0 = empty_world
        and ?w2.0 = "emit (SearchList (Some ''c'') 0) (emit (Build (Some ''y'')) empty_world)"]
    by blast
  have r3': "main demo_services demo_environ empty_world =
       (case process_all demo_services demo_environ demo_youtube
               (py_enumerate 1 [''nofmt'', ''ok''])
               (print ''Found 2 videos.''
                 (emit (SearchList (Some ''c'') 0) (emit (Build (Some ''y'')) empty_world))) of
          (Inl e', w4) \<Rightarrow> (Uncaught e', w4)
        | (Inr u, w4) \<Rightarrow> (Exit 0, w4))"
    using r3 by (simp only: s2 append.simps)
  show ?thesis using l a r1 b r2 r3' by (intro conjI)
qed

theorem failure_isolation_witness:
  "videos_list demo_youtube ''gone'' = Inr (Some [])
   \<and> fst (process_video demo_services demo_environ demo_youtube ''gone'' 1 empty_world) = Inr ()
   \<and> ydl_download demo_services (watch_url ''nodl'') (audio_file_basename 1) = Inl ''E3''
   \<and> fst (process_video demo_services demo_environ demo_youtube ''nodl'' 1 empty_world) = Inr ()
   \<and> requests_post demo_services transcriptions_url
        (''Bearer '' @ fmt_opt (demo_environ ''GROQ_API_KEY'')) ''A5''
        = Inr \<lparr>status_code = 500, resp_text = ''E4'', json_text = None\<rparr>
   \<and> fst (process_video demo_services demo_environ demo_youtube ''f500'' 2 empty_world) = Inr ()
   \<and> open_write readonly_services (transcription_file_path 1) ''M'' = OpenFailed ''E6''
   \<and> fst (process_video readonly_services demo_environ demo_youtube ''ok'' 1 empty_world) = Inr ()
   \<and> groq_chat demo_services (demo_environ ''GROQ_API_KEY'') (format_prompt ''A6'') = Inl ''E5''
   \<and> process_all demo_services demo_environ demo_youtube [(1, ''nofmt''), (2, ''ok'')] empty_world
        = (Inl (OtherError ''E5''),
           snd (process_video demo_services demo_environ demo_youtube ''nofmt'' 1 empty_world))
   \<and> fst (process_all demo_services demo_environ demo_youtube [(1, ''nodl''), (2, ''f500'')]
            empty_world) = Inr ()
   \<and> (3::int) \<notin> fst ` set [(1, ''nodl''), (2, ''f500'')]
   \<and> fst (process_video demo_services demo_environ demo_youtube ''ok'' 3
            (snd (process_all demo_services demo_environ demo_youtube
                    [(1, ''nodl''), (2, ''f500'')] empty_world))) = Inr ()
   \<and> files (snd (process_video demo_services demo_environ demo_youtube ''ok'' 3
            (snd (process_all demo_services demo_environ demo_youtube
                    [(1, ''nodl''), (2, ''f500'')] empty_world))))
        (transcription_file_path 3) = Some ''M''"
proof -
  have vg: "videos_list demo_youtube ''gone'' = Inr (Some [])" by (simp add: demo_youtube_def)
  have v1: "videos_list demo_youtube ''nodl'' = Inr (Some [\<lparr>title = ''T''\<rparr>])"
    "videos_list demo_youtube ''f500'' = Inr (Some [\<lparr>title = ''T''\<rparr>])"
    "videos_list demo_youtube ''ok'' = Inr (Some [\<lparr>title = ''T''\<rparr>])"
    "videos_list demo_youtube ''nofmt'' = Inr (Some [\<lparr>title = ''T''\<rparr>])"
    by (simp_all add: demo_found)
  have c1: "captions_list demo_youtube ''nodl'' = Inr (Some [\<lparr>trackKind = ''ASR''\<rparr>])"
    "captions_list demo_youtube ''f500'' = Inr (Some [\<lparr>trackKind = ''ASR''\<rparr>])"
    "captions_list demo_youtube ''ok'' = Inr (Some [\<lparr>trackKind = ''ASR''\<rparr>])"
    "captions_list demo_youtube ''nofmt'' = Inr (Some [\<lparr>trackKind = ''ASR''\<rparr>])"
    by (simp_all add: demo_asr_only)
  have i: "get_items (Some [\<lparr>title = ''T''\<rparr>]) \<noteq> []" by (simp add: get_items_def)
  have y: "ydl_download demo_services (watch_url ''nodl'') (audio_file_basename 1) = Inl ''E3''"
    "ydl_download demo_services (watch_url ''f500'') (audio_file_basename 2) = Inr ''A5''"
    "ydl_download readonly_services (watch_url ''ok'') (audio_file_basename 1) = Inr ''A7''"
    "ydl_download demo_services (watch_url ''nofmt'') (audio_file_basename 1) = Inr ''A6''"
    by (simp_all add: demo_services_def readonly_services_def watch_url_def)
  have p5: "requests_post demo_services transcriptions_url
        (''Bearer '' @ fmt_opt (demo_environ ''GROQ_API_KEY'')) ''A5''
        = Inr \<lparr>status_code = 500, resp_text = ''E4'', json_text = None\<rparr>"
    by (simp add: demo_services_def)
  then have n5: "\<not> (\<exists>resp t. requests_post demo_services transcriptions_url
        (''Bearer '' @ fmt_opt (demo_environ ''GROQ_API_KEY'')) ''A5'' = Inr resp
        \<and> status_code resp = 200 \<and> json_text resp = Some t)"
    by auto
  have p7: "requests_post readonly_services transcriptions_url
        (''Bearer '' @ fmt_opt (demo_environ ''GROQ_API_KEY'')) ''A7''
        = Inr \<lparr>status_code = 200, resp_text = ''J'', json_text = Some ''A7''\<rparr>"
    by (simp add: demo_services_def readonly_services_def)
  have p6: "requests_post demo_services transcriptions_url
        (''Bearer '' @ fmt_opt (demo_environ ''GROQ_API_KEY'')) ''A6''
        = Inr \<lparr>status_code = 200, resp_text = ''J'', json_text = Some ''A6''\<rparr>"
    by (simp add: demo_services_def)
  have g7: "groq_chat readonly_services (demo_environ ''GROQ_API_KEY'') (format_prompt ''A7'')
      = Inr ''M''"
    by (simp add: demo_services_def readonly_services_def format_prompt_eq_iff)
  have g6: "groq_chat demo_services (demo_environ ''GROQ_API_KEY'') (format_prompt ''A6'')
      = Inl ''E5''"
    by (simp add: demo_services_def)
  have ow: "open_write readonly_services (transcription_file_path 1) ''M'' = OpenFailed ''E6''"
    by (simp add: readonly_services_def)
  have r1: "fst (process_video demo_services demo_environ demo_youtube ''gone'' 1 empty_world)
      = Inr ()"
    using vg demo_items
      failure_isolation [where yt = demo_youtube and vk = "''gone''" and vr = "Some []"
        and sv = demo_services and environ = demo_environ and k = 1 and w = empty_world]
    by blast
  have r2: "fst (process_video demo_services demo_environ demo_youtube ''nodl'' 1 empty_world)
      = Inr ()"
    using v1 c1 i demo_items y empty_world_files
      failure_isolation [where yt = demo_youtube and vk = "''nodl''"
        and vr = "Some [\<lparr>title = ''T''\<rparr>]" and cr = "Some [\<lparr>trackKind = ''ASR''\<rparr>]"
        and sv = demo_services and environ = demo_environ and k = 1 and w = empty_world
        and ?m1.0 = "''E3''"]
    by blast
  have r3: "fst (process_video demo_services demo_environ demo_youtube ''f500'' 2 empty_world)
      = Inr ()"
    using v1 c1 i demo_items y empty_world_files n5
      failure_isolation [where yt = demo_youtube and vk = "''f500''"
        and vr = "Some [\<lparr>title = ''T''\<rparr>]" and cr = "Some [\<lparr>trackKind = ''ASR''\<rparr>]"
        and sv = demo_services and environ = demo_environ and k = 2 and w = empty_world
        and f = "''A5''"]
    by blast
  have r4: "fst (process_video readonly_services demo_environ demo_youtube ''ok'' 1 empty_world)
      = Inr ()"
  proof -
    have s: "status_code \<lparr>status_code = 200, resp_text = ''J'', json_text = Some ''A7''\<rparr> = 200"
      "json_text \<lparr>status_code = 200, resp_text = ''J'', json_text = Some ''A7''\<rparr> = Some ''A7''"
      by simp_all
    show ?thesis
      using v1 c1 i demo_items y empty_world_files p7 g7 s
        failure_isolation [where yt = demo_youtube and vk = "''ok''"
          and vr = "Some [\<lparr>title = ''T''\<rparr>]" and cr = "Some [\<lparr>trackKind = ''ASR''\<rparr>]"
          and sv = readonly_services and environ = demo_environ and k = 1 and w = empty_world
          and f = "''A7''"
          and resp = "\<lparr>status_code = 200, resp_text = ''J'', json_text = Some ''A7''\<rparr>"
          and t = "''A7''" and md = "''M''"]
      by blast
  qed
  have r5: "process_all demo_services demo_environ demo_youtube [(1, ''nofmt''), (2, ''ok'')]
      empty_world = (Inl (OtherError ''E5''),
           snd (process_video demo_services demo_environ demo_youtube ''nofmt'' 1 empty_world))"
  proof -
    have s: "status_code \<lparr>status_code = 200, resp_text = ''J'', json_text = Some ''A6''\<rparr> = 200"
      "json_text \<lparr>status_code = 200, resp_text = ''J'', json_text = Some ''A6''\<rparr> = Some ''A6''"
      by simp_all
    show ?thesis
      using v1 c1 i demo_items y empty_world_files p6 g6 s
        failure_isolation [where yt = demo_youtube and vk = "''nofmt''"
          and vr = "Some [\<lparr>title = ''T''\<rparr>]" and cr = "Some [\<lparr>trackKind = ''ASR''\<rparr>]"
          and sv = demo_services and environ = demo_environ and k = 1 and w = empty_world
          and f = "''A6''"
          and resp = "\<lparr>status_code = 200, resp_text = ''J'', json_text = Some ''A6''\<rparr>"
          and t = "''A6''" and ?m2.0 = "''E5''" and rest = "[(2, ''ok'')]"]
      by blast
  qed
  have h3: "(3::int) \<notin> fst ` set [(1, ''nodl''), (2, ''f500'')]" by simp
  note t = failure_isolation [where sv = demo_services and environ = demo_environ
      and yt = demo_youtube and w = empty_world and pre = "[(1, ''nodl''), (2, ''f500'')]"
      and j = 3 and vj = "''ok''"]
  have r6: "fst (process_video demo_services demo_environ demo_youtube ''ok'' 3
            (snd (process_all demo_services demo_environ demo_youtube
                    [(1, ''nodl''), (2, ''f500'')] empty_world))) = Inr ()"
    using t h3 demo_ok_3 by simp
  have r7: "files (snd (process_video demo_services demo_environ demo_youtube ''ok'' 3
            (snd (process_all demo_services demo_environ demo_youtube
                    [(1, ''nodl''), (2, ''f500'')] empty_world))))
        (transcription_file_path 3) = Some ''M''"
    using t h3 demo_ok_3 by simp
  show ?thesis using vg r1 y(1) r2 p5 r3 ow r4 g6 r5 demo_prefix h3 r6 r7 by (intro conjI)
qed

end
